theory Spec2Isabelle
  imports Complex_Main
begin

section \<open>SyncChess: the board model\<close>

text \<open>
  The server keeps a position as a JavaScript object from square names (\<open>'e2'\<close>) to piece
  identifiers (\<open>'wPe'\<close>: colour, type, then a tag that makes the identifier unique). An
  object is an ordered dictionary, so a position is an association list here. The game
  logic works on an 8 by 8 array \<open>board[rank][file]\<close> with \<open>null\<close> for an empty square;
  the array is a function from coordinates to an optional piece, \<open>None\<close> being \<open>null\<close>
  (and what JavaScript reads as \<open>undefined\<close> off the board). Rank index 0 is the eighth
  rank, file index 0 is the a-file, as \<open>squareToCoords\<close> has it.

  The keys of a position are squares of the board: the server builds every position
  itself (\<open>getStartingPosition\<close>, \<open>boardToPosition\<close>). The squares of a move come from
  the client and may be any string. \<open>wfSquare\<close> says that a name is one of the sixty-four
  from \<open>a1\<close> to \<open>h8\<close>. For a square off the board JavaScript distinguishes the rank from
  the file: \<open>board[rank]\<close> is \<open>undefined\<close> when the rank is no row of the array
  (\<open>rankOnBoard\<close> fails), and reading or writing \<open>board[rank][file]\<close> then throws a
  TypeError; when the rank is a row and the file is off the board (\<open>fileOnBoard\<close> fails),
  the read gives \<open>undefined\<close>, which is falsy but not \<open>null\<close>. The functions that return
  a plain value (\<open>isLegalMove\<close>, \<open>validateMove\<close>, \<open>resolveBoard\<close>) are the source's where it
  does not throw; where it throws is said by \<open>validateThrows\<close>, \<open>resolveThrows\<close>,
  \<open>promotionThrows\<close> and \<open>promotePawnThrows\<close>, and \<open>processMoves\<close> and the handlers return
  \<open>None\<close> there.
\<close>

type_synonym piece = string
type_synonym square = string
type_synonym coords = "int \<times> int"
type_synonym board = "coords \<Rightarrow> piece option"
type_synonym position = "(square \<times> piece) list"

text \<open>\<open>s[i]\<close> on a string: the character, or \<open>undefined\<close> (\<open>None\<close>) past the end.\<close>

definition charAt :: "string \<Rightarrow> nat \<Rightarrow> char option" where
  "charAt s i = (if i < length s then Some (s ! i) else None)"

text \<open>JavaScript truthiness of a board entry: not \<open>null\<close> and not the empty string.\<close>

definition truthy :: "string option \<Rightarrow> bool" where
  "truthy p = (case p of None \<Rightarrow> False | Some s \<Rightarrow> s \<noteq> [])"

text \<open>\<open>p[i]\<close> where \<open>p\<close> is a board entry the source has already tested for truthiness.\<close>

definition pieceChar :: "piece option \<Rightarrow> nat \<Rightarrow> char option" where
  "pieceChar p i = (case p of None \<Rightarrow> None | Some s \<Rightarrow> charAt s i)"

text \<open>
  \<open>squareToCoords\<close>: \<open>file = square.charCodeAt(0) - 97\<close>, \<open>rank = 8 - parseInt(square[1])\<close>.
  On a digit \<open>parseInt\<close> is the character code minus 48. A name that is too short, or
  whose second character is no digit, gives \<open>NaN\<close> in the source; here it gives
  coordinates off the board.
\<close>

definition squareToCoords :: "square \<Rightarrow> coords" where
  "squareToCoords s =
     (case s of
        c # d # _ \<Rightarrow> (8 - (of_char d - 48), of_char c - 97)
      | _ \<Rightarrow> (-1, -1))"

text \<open>
  \<open>coordsToSquare\<close>: \<open>String.fromCharCode(97 + file) + (8 - rank)\<close>; the number \<open>8 - rank\<close>
  is one digit for every rank index the source passes (from -1 to 8).
\<close>

definition coordsToSquare :: "coords \<Rightarrow> square" where
  "coordsToSquare c = [char_of (97 + snd c), char_of (48 + (8 - fst c))]"

definition inRange :: "coords \<Rightarrow> bool" where
  "inRange c = (0 \<le> fst c \<and> fst c < 8 \<and> 0 \<le> snd c \<and> snd c < 8)"

definition rankOnBoard :: "coords \<Rightarrow> bool" where
  "rankOnBoard c = (0 \<le> fst c \<and> fst c < 8)"

definition fileOnBoard :: "coords \<Rightarrow> bool" where
  "fileOnBoard c = (0 \<le> snd c \<and> snd c < 8)"

definition wfSquare :: "square \<Rightarrow> bool" where
  "wfSquare s = (inRange (squareToCoords s) \<and> s = coordsToSquare (squareToCoords s))"

text \<open>The loops \<open>for r in 0..7, for f in 0..7\<close> visit the coordinates in this order.\<close>

definition allCoords :: "coords list" where
  "allCoords = concat (map (\<lambda>r. map (\<lambda>f. (r, f)) [0..7]) [0..7])"

definition emptyBoard :: board where
  "emptyBoard = (\<lambda>c. None)"

text \<open>\<open>positionToBoard\<close> writes every entry of the position into an empty array.\<close>

definition positionToBoard :: "position \<Rightarrow> board" where
  "positionToBoard pos = fold (\<lambda>(sq, p) b. b(squareToCoords sq := Some p)) pos emptyBoard"

text \<open>\<open>boardToPosition\<close> collects the truthy entries, rank by rank.\<close>

definition boardToPosition :: "board \<Rightarrow> position" where
  "boardToPosition b =
     concat (map (\<lambda>c. case b c of
                         None \<Rightarrow> []
                       | Some p \<Rightarrow> if p \<noteq> [] then [(coordsToSquare c, p)] else [])
                 allCoords)"

definition getStartingPosition :: position where
  "getStartingPosition =
     concat (map (\<lambda>i. [([char_of (97 + i), CHR ''2''], ''wP'' @ [char_of (97 + i)]),
                        ([char_of (97 + i), CHR ''7''], ''bP'' @ [char_of (97 + i)])])
                 [0..7::int])
     @ [(''a1'', ''wR1''), (''h1'', ''wR2''), (''a8'', ''bR1''), (''h8'', ''bR2''),
        (''b1'', ''wN1''), (''g1'', ''wN2''), (''b8'', ''bN1''), (''g8'', ''bN2''),
        (''c1'', ''wB1''), (''f1'', ''wB2''), (''c8'', ''bB1''), (''f8'', ''bB2''),
        (''d1'', ''wQ''), (''e1'', ''wK''), (''d8'', ''bQ''), (''e8'', ''bK'')]"

section \<open>Game state\<close>

text \<open>
  Several objects of the source have one entry per colour (\<open>{ white: \<dots>, black: \<dots> }\<close>);
  they share the record \<open>perColor\<close>, indexed by the colour name.

  Field names are unique across the records of a theory, and \<open>from\<close> is a keyword, so
  a few fields are renamed: \<open>move.from\<close> and \<open>move.to\<close> are \<open>from_sq\<close> and \<open>to_sq\<close>,
  \<open>timers.white\<close> and \<open>timers.black\<close> are \<open>whiteTime\<close> and \<open>blackTime\<close>, and
  \<open>rooksMoved.white\<close> and \<open>rooksMoved.black\<close> are \<open>rooksMovedWhite\<close> and
  \<open>rooksMovedBlack\<close>. \<open>gameResult\<close>, which \<open>processMoves\<close> adds to the object, is a field from
  the start (\<open>None\<close> for \<open>undefined\<close> and \<open>null\<close>). The interval handle \<open>timerInterval\<close>
  is left out: \<open>submitMove\<close>, \<open>promotePawn\<close> and \<open>processMoves\<close> neither read nor write it.
\<close>

datatype colorName = White | Black

record 'a perColor =
  white :: 'a
  black :: 'a

definition sel :: "colorName \<Rightarrow> 'a perColor \<Rightarrow> 'a" where
  "sel cn x = (case cn of White \<Rightarrow> white x | Black \<Rightarrow> black x)"

definition upd :: "colorName \<Rightarrow> 'a \<Rightarrow> 'a perColor \<Rightarrow> 'a perColor" where
  "upd cn v x = (case cn of White \<Rightarrow> x\<lparr>white := v\<rparr> | Black \<Rightarrow> x\<lparr>black := v\<rparr>)"

record sideRights =
  kingSide :: bool
  queenSide :: bool

type_synonym castlingRights = "sideRights perColor"

text \<open>
  A move as the client sends it; \<open>promotion\<close> and \<open>promotedPieceId\<close> are absent
  (\<open>None\<close>) until \<open>promotePawn\<close> attaches them.
\<close>

record move =
  from_sq :: square
  to_sq :: square
  promotion :: "string option"
  promotedPieceId :: "string option"

record historyMove =
  h_from :: square
  h_to :: square
  h_piece :: "piece option"
  h_promotion :: "string option"

record timers =
  timeControl :: int
  whiteTime :: real
  blackTime :: real
  lastUpdate :: int
  whiteActive :: bool
  blackActive :: bool

record whiteRooks =
  a1 :: bool
  h1 :: bool

record blackRooks =
  a8 :: bool
  h8 :: bool

record game =
  position :: position
  whiteId :: "string option"
  blackId :: "string option"
  pendingMoves :: "move option perColor"
  lastMovedPieces :: "piece option perColor"
  lastMoves :: "move option perColor"
  inCheck :: "bool perColor"
  castlingRights :: castlingRights
  enPassantTarget :: "square option"
  moveHistory :: "historyMove perColor list"
  timers :: timers
  timerRunning :: bool
  gameStarted :: bool
  kingsMoved :: "bool perColor"
  rooksMovedWhite :: whiteRooks
  rooksMovedBlack :: blackRooks
  gameResult :: "string option"

definition both :: "'a \<Rightarrow> 'a perColor" where
  "both v = \<lparr>white = v, black = v\<rparr>"

definition createGameState :: "int \<Rightarrow> int \<Rightarrow> game" where
  "createGameState tc now =
     \<lparr>position = getStartingPosition,
      whiteId = None, blackId = None,
      pendingMoves = both None,
      lastMovedPieces = both None,
      lastMoves = both None,
      inCheck = both False,
      castlingRights = both \<lparr>kingSide = True, queenSide = True\<rparr>,
      enPassantTarget = None,
      moveHistory = [],
      timers = \<lparr>timeControl = tc, whiteTime = of_int tc, blackTime = of_int tc,
                lastUpdate = now, whiteActive = True, blackActive = True\<rparr>,
      timerRunning = False,
      gameStarted = False,
      kingsMoved = both False,
      rooksMovedWhite = \<lparr>a1 = False, h1 = False\<rparr>,
      rooksMovedBlack = \<lparr>a8 = False, h8 = False\<rparr>,
      gameResult = None\<rparr>"

section \<open>Legality checker\<close>

text \<open>
  \<open>isLegalMove(board, from, to, piece, gameState)\<close> reads two fields of the game state, the
  castling rights and the en-passant target; they are its last two arguments. The state
  that \<open>isSquareUnderAttack\<close> passes (\<open>{ castlingRights: { white: {}, black: {} },
  enPassantTarget: null }\<close>) is \<open>noCastling\<close> and \<open>None\<close>: a missing \<open>kingSide\<close> is falsy.

  The sliding loops of rook, bishop and queen start one step after \<open>from\<close>, test the
  square, advance by the step \<open>(sign rankDiff, sign fileDiff)\<close> and stop on reaching \<open>to\<close>.
  Each loop is entered only for a move along a rank, a file or a diagonal, so it tests
  \<open>max |rankDiff| |fileDiff| - 1\<close> squares; \<open>pathClear\<close> counts them down. The loops
  themselves are \<open>slideLoopOr\<close> (rook and queen: \<open>while (r !== to.rank || f !== to.file)\<close>)
  and \<open>slideLoopAnd\<close> (bishop: \<open>&&\<close>), where not returning is \<open>None\<close>; the lemmas
  \<open>slideClear_is_rook_loop\<close> and \<open>slideClear_is_bishop_loop\<close> show that on such moves
  they return, and return what \<open>slideClear\<close> computes.

  The first read of \<open>isLegalMove\<close> is \<open>board[toCoords.rank][toCoords.file]\<close>, which throws
  when the rank of \<open>to\<close> is no row of the board. The loops of the source call the function
  with squares of the board only; the one call with a client's square is in \<open>submitMove\<close>,
  where \<open>validateThrows\<close> models the throw. \<open>isLegalMove\<close> is the value the function
  returns when that read succeeds.

  Each case of the \<open>switch\<close> on the piece type is a definition of its own; the king's case,
  which calls \<open>isInCheck\<close> and \<open>isSquareUnderAttack\<close> for castling, stays inside the
  recursion. The recursion ends because the attack probe runs without castling rights.
\<close>

definition noCastling :: castlingRights where
  "noCastling = both \<lparr>kingSide = False, queenSide = False\<rparr>"

fun pathClear :: "board \<Rightarrow> coords \<Rightarrow> coords \<Rightarrow> nat \<Rightarrow> bool" where
  "pathClear b c step 0 = True"
| "pathClear b c step (Suc n) =
     (if truthy (b c) then False
      else pathClear b (fst c + fst step, snd c + snd step) step n)"

definition stepsBetween :: "int \<Rightarrow> int \<Rightarrow> nat" where
  "stepsBetween rankDiff fileDiff = nat (max \<bar>rankDiff\<bar> \<bar>fileDiff\<bar>) - 1"

definition slideClear :: "board \<Rightarrow> coords \<Rightarrow> int \<Rightarrow> int \<Rightarrow> bool" where
  "slideClear b fromCoords rankDiff fileDiff =
     pathClear b (fst fromCoords + sgn rankDiff, snd fromCoords + sgn fileDiff)
       (sgn rankDiff, sgn fileDiff) (stepsBetween rankDiff fileDiff)"

partial_function (option) slideLoopOr :: "board \<Rightarrow> coords \<Rightarrow> coords \<Rightarrow> coords \<Rightarrow> bool option" where
  "slideLoopOr b c step toCoords =
     (if fst c \<noteq> fst toCoords \<or> snd c \<noteq> snd toCoords
      then (if truthy (b c) then Some False
            else slideLoopOr b (fst c + fst step, snd c + snd step) step toCoords)
      else Some True)"

partial_function (option) slideLoopAnd :: "board \<Rightarrow> coords \<Rightarrow> coords \<Rightarrow> coords \<Rightarrow> bool option" where
  "slideLoopAnd b c step toCoords =
     (if fst c \<noteq> fst toCoords \<and> snd c \<noteq> snd toCoords
      then (if truthy (b c) then Some False
            else slideLoopAnd b (fst c + fst step, snd c + snd step) step toCoords)
      else Some True)"

definition pawnLegal :: "board \<Rightarrow> char \<Rightarrow> coords \<Rightarrow> coords \<Rightarrow> square option \<Rightarrow> bool" where
  "pawnLegal b color fromCoords toCoords ep =
     (let destPiece = b toCoords;
          rankDiff = fst toCoords - fst fromCoords;
          fileDiff = snd toCoords - snd fromCoords;
          direction = (if color = CHR ''w'' then -1 else 1);
          startRank = (if color = CHR ''w'' then 6 else 1)
      in if fileDiff = 0 \<and> \<not> truthy destPiece \<and> rankDiff = direction then True
         else if fileDiff = 0 \<and> \<not> truthy destPiece \<and> rankDiff = 2 * direction
                 \<and> fst fromCoords = startRank
                 \<and> \<not> truthy (b (fst fromCoords + direction, snd fromCoords)) then True
         else if \<bar>fileDiff\<bar> = 1 \<and> rankDiff = direction \<and> truthy destPiece then True
         else if \<bar>fileDiff\<bar> = 1 \<and> rankDiff = direction \<and> \<not> truthy destPiece \<and> truthy ep
                 \<and> toCoords = squareToCoords (the ep) then True
         else False)"

definition rookLegal :: "board \<Rightarrow> coords \<Rightarrow> coords \<Rightarrow> bool" where
  "rookLegal b fromCoords toCoords =
     (let rankDiff = fst toCoords - fst fromCoords;
          fileDiff = snd toCoords - snd fromCoords
      in if rankDiff \<noteq> 0 \<and> fileDiff \<noteq> 0 then False
         else slideClear b fromCoords rankDiff fileDiff)"

definition knightLegal :: "coords \<Rightarrow> coords \<Rightarrow> bool" where
  "knightLegal fromCoords toCoords =
     (let rankDiff = fst toCoords - fst fromCoords;
          fileDiff = snd toCoords - snd fromCoords
      in (\<bar>rankDiff\<bar> = 2 \<and> \<bar>fileDiff\<bar> = 1) \<or> (\<bar>rankDiff\<bar> = 1 \<and> \<bar>fileDiff\<bar> = 2))"

definition bishopLegal :: "board \<Rightarrow> coords \<Rightarrow> coords \<Rightarrow> bool" where
  "bishopLegal b fromCoords toCoords =
     (let rankDiff = fst toCoords - fst fromCoords;
          fileDiff = snd toCoords - snd fromCoords
      in if \<bar>rankDiff\<bar> \<noteq> \<bar>fileDiff\<bar> then False
         else slideClear b fromCoords rankDiff fileDiff)"

definition queenLegal :: "board \<Rightarrow> coords \<Rightarrow> coords \<Rightarrow> bool" where
  "queenLegal b fromCoords toCoords =
     (let rankDiff = fst toCoords - fst fromCoords;
          fileDiff = snd toCoords - snd fromCoords;
          isDiagonal = (\<bar>rankDiff\<bar> = \<bar>fileDiff\<bar>);
          isStraight = (rankDiff = 0 \<or> fileDiff = 0)
      in if \<not> isDiagonal \<and> \<not> isStraight then False
         else slideClear b fromCoords rankDiff fileDiff)"

definition opponent :: "char \<Rightarrow> char" where
  "opponent color = (if color = CHR ''w'' then CHR ''b'' else CHR ''w'')"

definition colorNameOf :: "char \<Rightarrow> colorName" where
  "colorNameOf color = (if color = CHR ''w'' then White else Black)"

fun findKingIn :: "board \<Rightarrow> char \<Rightarrow> coords list \<Rightarrow> square option" where
  "findKingIn b color [] = None"
| "findKingIn b color (c # cs) =
     (if truthy (b c) \<and> pieceChar (b c) 0 = Some color \<and> pieceChar (b c) 1 = Some CHR ''K''
      then Some (coordsToSquare c)
      else findKingIn b color cs)"

definition findKing :: "board \<Rightarrow> char \<Rightarrow> square option" where
  "findKing b color = findKingIn b color allCoords"

definition hasRight :: "castlingRights \<Rightarrow> bool" where
  "hasRight cr = (kingSide (white cr) \<or> queenSide (white cr) \<or> kingSide (black cr) \<or> queenSide (black cr))"

function isLegalMove :: "board \<Rightarrow> square \<Rightarrow> square \<Rightarrow> piece \<Rightarrow> castlingRights \<Rightarrow> square option \<Rightarrow> bool"
  and attackedFrom :: "board \<Rightarrow> square \<Rightarrow> char \<Rightarrow> coords list \<Rightarrow> bool"
  and isSquareUnderAttack :: "board \<Rightarrow> square \<Rightarrow> char \<Rightarrow> bool"
  and isInCheck :: "board \<Rightarrow> char \<Rightarrow> bool"
where
  "isLegalMove b from to p cr ep =
     (case p of
        [] \<Rightarrow> False
      | color # _ \<Rightarrow>
          if truthy (b (squareToCoords to)) \<and> pieceChar (b (squareToCoords to)) 0 = Some color
          then False
          else if charAt p 1 = Some CHR ''P''
            then pawnLegal b color (squareToCoords from) (squareToCoords to) ep
          else if charAt p 1 = Some CHR ''R''
            then rookLegal b (squareToCoords from) (squareToCoords to)
          else if charAt p 1 = Some CHR ''N''
            then knightLegal (squareToCoords from) (squareToCoords to)
          else if charAt p 1 = Some CHR ''B''
            then bishopLegal b (squareToCoords from) (squareToCoords to)
          else if charAt p 1 = Some CHR ''Q''
            then queenLegal b (squareToCoords from) (squareToCoords to)
          else if charAt p 1 = Some CHR ''K''
            then
              (if \<bar>fst (squareToCoords to) - fst (squareToCoords from)\<bar> \<le> 1
                  \<and> \<bar>snd (squareToCoords to) - snd (squareToCoords from)\<bar> \<le> 1 then True
               else if fst (squareToCoords to) - fst (squareToCoords from) = 0
                       \<and> \<bar>snd (squareToCoords to) - snd (squareToCoords from)\<bar> = 2
                 then
                   (if 0 < snd (squareToCoords to) - snd (squareToCoords from)
                    then
                      (if \<not> kingSide (sel (colorNameOf color) cr) then False
                       else if isInCheck b color then False
                       else if truthy (b (fst (squareToCoords from), 5))
                               \<or> truthy (b (fst (squareToCoords from), 6)) then False
                       else if isSquareUnderAttack b
                                 (coordsToSquare (fst (squareToCoords from), 5)) (opponent color)
                         then False
                       else True)
                    else
                      (if \<not> queenSide (sel (colorNameOf color) cr) then False
                       else if isInCheck b color then False
                       else if truthy (b (fst (squareToCoords from), 1))
                               \<or> truthy (b (fst (squareToCoords from), 2))
                               \<or> truthy (b (fst (squareToCoords from), 3)) then False
                       else if isSquareUnderAttack b
                                 (coordsToSquare (fst (squareToCoords from), 3)) (opponent color)
                         then False
                       else True))
               else False)
          else False)"
| "attackedFrom b sq attackerColor [] = False"
| "attackedFrom b sq attackerColor (c # cs) =
     (if truthy (b c) \<and> pieceChar (b c) 0 = Some attackerColor
         \<and> isLegalMove b (coordsToSquare c) sq (take 2 (the (b c))) noCastling None
      then True
      else attackedFrom b sq attackerColor cs)"
| "isSquareUnderAttack b sq attackerColor = attackedFrom b sq attackerColor allCoords"
| "isInCheck b color =
     (case findKing b color of
        None \<Rightarrow> False
      | Some kingSquare \<Rightarrow> isSquareUnderAttack b kingSquare (opponent color))"
  by pat_completeness auto
termination
  apply (relation "measures
          [\<lambda>x. case x of
                 Inl (Inl (b, from, to, p, cr, ep)) \<Rightarrow> (if hasRight cr then 4 else 0)
               | Inl (Inr (b, sq, ac, cs)) \<Rightarrow> 1
               | Inr (Inl (b, sq, ac)) \<Rightarrow> 2
               | Inr (Inr (b, color)) \<Rightarrow> 3,
           \<lambda>x. case x of
                 Inl (Inr (b, sq, ac, cs)) \<Rightarrow> length cs
               | _ \<Rightarrow> 0]")
  apply (auto simp: hasRight_def sel_def noCastling_def both_def split: colorName.splits)
  done

declare isLegalMove.simps [simp del] isSquareUnderAttack.simps [simp del]
  isInCheck.simps [simp del]

section \<open>Checkmate and stalemate\<close>

text \<open>
  \<open>isCheckmate\<close> and \<open>isStalemate\<close> run the same four nested loops: for every piece of
  the colour and every square of the board, a move that \<open>isLegalMove\<close> accepts is played
  on a copy of the board (\<open>tempBoard[rank][file] = null; tempBoard[r][f] = piece\<close>), and
  the search stops at the first move after which the colour is not in check.
  \<open>isStalemate\<close> alone skips the piece's own square; \<open>skipSame\<close> says which loop runs.
\<close>

fun safeMoveTo ::
  "board \<Rightarrow> char \<Rightarrow> castlingRights \<Rightarrow> square option \<Rightarrow> bool \<Rightarrow> coords \<Rightarrow> coords list \<Rightarrow> bool"
where
  "safeMoveTo b color cr ep skipSame c [] = False"
| "safeMoveTo b color cr ep skipSame c (d # ds) =
     (if skipSame \<and> c = d then safeMoveTo b color cr ep skipSame c ds
      else if isLegalMove b (coordsToSquare c) (coordsToSquare d) (take 2 (the (b c))) cr ep
        then (if \<not> isInCheck (b(c := None, d := b c)) color then True
              else safeMoveTo b color cr ep skipSame c ds)
      else safeMoveTo b color cr ep skipSame c ds)"

fun safeMoveFrom ::
  "board \<Rightarrow> char \<Rightarrow> castlingRights \<Rightarrow> square option \<Rightarrow> bool \<Rightarrow> coords list \<Rightarrow> bool"
where
  "safeMoveFrom b color cr ep skipSame [] = False"
| "safeMoveFrom b color cr ep skipSame (c # cs) =
     (if truthy (b c) \<and> pieceChar (b c) 0 = Some color
      then (if safeMoveTo b color cr ep skipSame c allCoords then True
            else safeMoveFrom b color cr ep skipSame cs)
      else safeMoveFrom b color cr ep skipSame cs)"

definition isCheckmate :: "board \<Rightarrow> char \<Rightarrow> castlingRights \<Rightarrow> square option \<Rightarrow> bool" where
  "isCheckmate b color cr ep =
     (if \<not> isInCheck b color then False
      else \<not> safeMoveFrom b color cr ep False allCoords)"

definition isStalemate :: "board \<Rightarrow> char \<Rightarrow> castlingRights \<Rightarrow> square option \<Rightarrow> bool" where
  "isStalemate b color cr ep =
     (if isInCheck b color then False
      else \<not> safeMoveFrom b color cr ep True allCoords)"

definition doesKingExist :: "board \<Rightarrow> char \<Rightarrow> bool" where
  "doesKingExist b color = (findKing b color \<noteq> None)"

section \<open>Timers\<close>

definition checkTimerStatus :: "game \<Rightarrow> game" where
  "checkTimerStatus g =
     (if truthy (gameResult g)
      then g\<lparr>timers := (timers g)\<lparr>whiteActive := False, blackActive := False\<rparr>,
             timerRunning := False\<rparr>
      else if white (pendingMoves g) \<noteq> None \<and> black (pendingMoves g) \<noteq> None
      then g\<lparr>timers := (timers g)\<lparr>whiteActive := False, blackActive := False\<rparr>\<rparr>
      else if white (pendingMoves g) \<noteq> None \<and> black (pendingMoves g) = None
      then g\<lparr>timers := (timers g)\<lparr>whiteActive := False, blackActive := True\<rparr>\<rparr>
      else if white (pendingMoves g) = None \<and> black (pendingMoves g) \<noteq> None
      then g\<lparr>timers := (timers g)\<lparr>whiteActive := True, blackActive := False\<rparr>\<rparr>
      else g\<lparr>timers := (timers g)\<lparr>whiteActive := True, blackActive := True\<rparr>\<rparr>)"

section \<open>Round resolution\<close>

text \<open>
  \<open>handleCastling\<close> moves the king, then the rook of the king's rank from the h-file to
  the f-file (king side) or from the a-file to the d-file (queen side). The king is
  written as \<open>color + 'K'\<close>.
\<close>

definition handleCastling :: "board \<Rightarrow> char \<Rightarrow> move \<Rightarrow> board" where
  "handleCastling b color m =
     (let fromCoords = squareToCoords (from_sq m);
          toCoords = squareToCoords (to_sq m);
          isKingside = (snd fromCoords < snd toCoords);
          b1 = b(fromCoords := None);
          b2 = b1(toCoords := Some [color, CHR ''K''])
      in if isKingside
         then (let rookPiece = b2 (fst fromCoords, 7);
                   b3 = b2((fst fromCoords, 7) := None)
               in b3((fst fromCoords, 5) := rookPiece))
         else (let rookPiece = b2 (fst fromCoords, 0);
                   b3 = b2((fst fromCoords, 0) := None)
               in b3((fst fromCoords, 3) := rookPiece)))"

text \<open>
  The piece that lands: with a promotion choice, the stored \<open>promotedPieceId\<close> or else
  \<open>color + promotion + piece.substring(2)\<close>; without one, the moving piece itself.
  \<open>piece.substring(2)\<close> throws a TypeError when there is no piece on the from-square;
  \<open>promotionThrows\<close> is that case.
\<close>

definition promotedPiece :: "char \<Rightarrow> move \<Rightarrow> piece option \<Rightarrow> piece option" where
  "promotedPiece color m p =
     (if truthy (promotion m)
      then (if truthy (promotedPieceId m) then promotedPieceId m
            else Some (color # the (promotion m) @ drop 2 (the p)))
      else p)"

definition promotionThrows :: "move \<Rightarrow> piece option \<Rightarrow> bool" where
  "promotionThrows m p = (truthy (promotion m) \<and> \<not> truthy (promotedPieceId m) \<and> p = None)"

text \<open>Castling: a king that moves two files.\<close>

definition castlingStep :: "board \<Rightarrow> move \<Rightarrow> move \<Rightarrow> board" where
  "castlingStep board whiteMove blackMove =
     (let whitePiecePos = squareToCoords (from_sq whiteMove);
          blackPiecePos = squareToCoords (from_sq blackMove);
          whitePiece = board whitePiecePos;
          blackPiece = board blackPiecePos;
          whiteToCoords = squareToCoords (to_sq whiteMove);
          blackToCoords = squareToCoords (to_sq blackMove);
          nb1 = (if truthy whitePiece \<and> pieceChar whitePiece 1 = Some CHR ''K''
                    \<and> \<bar>snd whitePiecePos - snd whiteToCoords\<bar> = 2
                 then handleCastling board CHR ''w'' whiteMove else board)
      in if truthy blackPiece \<and> pieceChar blackPiece 1 = Some CHR ''K''
            \<and> \<bar>snd blackPiecePos - snd blackToCoords\<bar> = 2
         then handleCastling nb1 CHR ''b'' blackMove else nb1)"

text \<open>
  The en-passant target of the coming round: reset to \<open>null\<close>, then written by a white
  pawn that moves two ranks, then written again by a black pawn that moves two ranks.
\<close>

definition passantTarget :: "board \<Rightarrow> move \<Rightarrow> move \<Rightarrow> square option" where
  "passantTarget board whiteMove blackMove =
     (let whitePiecePos = squareToCoords (from_sq whiteMove);
          blackPiecePos = squareToCoords (from_sq blackMove);
          whitePiece = board whitePiecePos;
          blackPiece = board blackPiecePos;
          whiteToCoords = squareToCoords (to_sq whiteMove);
          blackToCoords = squareToCoords (to_sq blackMove);
          t1 = (if truthy whitePiece \<and> pieceChar whitePiece 1 = Some CHR ''P''
                   \<and> \<bar>fst whitePiecePos - fst whiteToCoords\<bar> = 2
                then Some (coordsToSquare (fst whitePiecePos - 1, snd whitePiecePos))
                else None)
      in if truthy blackPiece \<and> pieceChar blackPiece 1 = Some CHR ''P''
            \<and> \<bar>fst blackPiecePos - fst blackToCoords\<bar> = 2
         then Some (coordsToSquare (fst blackPiecePos + 1, snd blackPiecePos))
         else t1)"

text \<open>
  En-passant capture: a pawn that changes file by one and lands on an empty square of
  rank index 2 (white) or 5 (black) removes the pawn behind that square.
\<close>

definition enPassantCaptureStep :: "board \<Rightarrow> move \<Rightarrow> move \<Rightarrow> board \<Rightarrow> board" where
  "enPassantCaptureStep board whiteMove blackMove newBoard =
     (let whitePiecePos = squareToCoords (from_sq whiteMove);
          blackPiecePos = squareToCoords (from_sq blackMove);
          whitePiece = board whitePiecePos;
          blackPiece = board blackPiecePos;
          whiteToCoords = squareToCoords (to_sq whiteMove);
          blackToCoords = squareToCoords (to_sq blackMove);
          nb1 = (if truthy whitePiece \<and> pieceChar whitePiece 1 = Some CHR ''P''
                    \<and> \<bar>snd whitePiecePos - snd whiteToCoords\<bar> = 1
                    \<and> fst whiteToCoords = 2 \<and> board whiteToCoords = None
                 then newBoard((fst whiteToCoords + 1, snd whiteToCoords) := None)
                 else newBoard)
      in if truthy blackPiece \<and> pieceChar blackPiece 1 = Some CHR ''P''
            \<and> \<bar>snd blackPiecePos - snd blackToCoords\<bar> = 1
            \<and> fst blackToCoords = 5 \<and> board blackToCoords = None
         then nb1((fst blackToCoords - 1, snd blackToCoords) := None)
         else nb1)"

text \<open>Both from-squares are emptied.\<close>

definition vacateStep :: "board \<Rightarrow> move \<Rightarrow> move \<Rightarrow> board \<Rightarrow> board" where
  "vacateStep board whiteMove blackMove newBoard =
     (let whitePiecePos = squareToCoords (from_sq whiteMove);
          blackPiecePos = squareToCoords (from_sq blackMove);
          whitePiece = board whitePiecePos;
          blackPiece = board blackPiecePos;
          nb1 = (if board whitePiecePos = whitePiece then newBoard(whitePiecePos := None)
                 else newBoard)
      in if board blackPiecePos = blackPiece then nb1(blackPiecePos := None) else nb1)"

text \<open>
  Collision and swerve. With equal destinations nothing is placed. Otherwise white's
  piece is placed when its destination held the piece black moves (and black's move
  goes somewhere), or was empty, or held a black piece; then black's piece likewise.
\<close>

definition placeStep :: "board \<Rightarrow> move \<Rightarrow> move \<Rightarrow> board \<Rightarrow> board" where
  "placeStep board whiteMove blackMove newBoard =
     (let whitePiecePos = squareToCoords (from_sq whiteMove);
          blackPiecePos = squareToCoords (from_sq blackMove);
          whitePiece = board whitePiecePos;
          blackPiece = board blackPiecePos;
          whiteToCoords = squareToCoords (to_sq whiteMove);
          blackToCoords = squareToCoords (to_sq blackMove);
          promotedWhitePiece = promotedPiece CHR ''w'' whiteMove whitePiece;
          promotedBlackPiece = promotedPiece CHR ''b'' blackMove blackPiece
      in if to_sq whiteMove = to_sq blackMove then newBoard
         else
           (let nb1 =
                  (if board whiteToCoords = blackPiece \<and> from_sq blackMove \<noteq> to_sq blackMove
                   then newBoard(whiteToCoords := promotedWhitePiece)
                   else if board whiteToCoords = None
                           \<or> pieceChar (board whiteToCoords) 0 = Some CHR ''b''
                   then newBoard(whiteToCoords := promotedWhitePiece)
                   else newBoard)
            in if board blackToCoords = whitePiece \<and> from_sq whiteMove \<noteq> to_sq whiteMove
               then nb1(blackToCoords := promotedBlackPiece)
               else if board blackToCoords = None
                       \<or> pieceChar (board blackToCoords) 0 = Some CHR ''w''
               then nb1(blackToCoords := promotedBlackPiece)
               else nb1))"

definition resolveBoard :: "board \<Rightarrow> move \<Rightarrow> move \<Rightarrow> board" where
  "resolveBoard board whiteMove blackMove =
     placeStep board whiteMove blackMove
       (vacateStep board whiteMove blackMove
          (enPassantCaptureStep board whiteMove blackMove
             (castlingStep board whiteMove blackMove)))"

text \<open>The result that a collision decides: a king that collides is lost.\<close>

definition collisionResult :: "move \<Rightarrow> move \<Rightarrow> piece option \<Rightarrow> piece option \<Rightarrow> string option" where
  "collisionResult whiteMove blackMove whitePiece blackPiece =
     (if to_sq whiteMove = to_sq blackMove
      then
        (let r1 = (if truthy whitePiece \<and> pieceChar whitePiece 1 = Some CHR ''K''
                   then Some ''blackWins'' else None);
             r2 = (if truthy blackPiece \<and> pieceChar blackPiece 1 = Some CHR ''K''
                   then Some ''whiteWins'' else r1)
         in if truthy whitePiece \<and> pieceChar whitePiece 1 = Some CHR ''K''
               \<and> truthy blackPiece \<and> pieceChar blackPiece 1 = Some CHR ''K''
            then Some ''draw'' else r2)
      else None)"

text \<open>Castling rights: a king or rook that moves, and a rook captured on its corner.\<close>

definition updateCastlingRights :: "board \<Rightarrow> move \<Rightarrow> move \<Rightarrow> game \<Rightarrow> game" where
  "updateCastlingRights board whiteMove blackMove g =
     (let whitePiece = board (squareToCoords (from_sq whiteMove));
          blackPiece = board (squareToCoords (from_sq blackMove));
          whiteDest = board (squareToCoords (to_sq whiteMove));
          blackDest = board (squareToCoords (to_sq blackMove));
          g1 = (if truthy whitePiece \<and> pieceChar whitePiece 1 = Some CHR ''K''
                then g\<lparr>kingsMoved := (kingsMoved g)\<lparr>white := True\<rparr>,
                       castlingRights := (castlingRights g)
                          \<lparr>white := \<lparr>kingSide = False, queenSide = False\<rparr>\<rparr>\<rparr>
                else g);
          g2 = (if truthy blackPiece \<and> pieceChar blackPiece 1 = Some CHR ''K''
                then g1\<lparr>kingsMoved := (kingsMoved g1)\<lparr>black := True\<rparr>,
                        castlingRights := (castlingRights g1)
                          \<lparr>black := \<lparr>kingSide = False, queenSide = False\<rparr>\<rparr>\<rparr>
                else g1);
          g3 = (if truthy whitePiece \<and> pieceChar whitePiece 1 = Some CHR ''R''
                then (if from_sq whiteMove = ''a1''
                      then g2\<lparr>rooksMovedWhite := (rooksMovedWhite g2)\<lparr>a1 := True\<rparr>,
                              castlingRights := (castlingRights g2)
                                \<lparr>white := (white (castlingRights g2))\<lparr>queenSide := False\<rparr>\<rparr>\<rparr>
                      else if from_sq whiteMove = ''h1''
                      then g2\<lparr>rooksMovedWhite := (rooksMovedWhite g2)\<lparr>h1 := True\<rparr>,
                              castlingRights := (castlingRights g2)
                                \<lparr>white := (white (castlingRights g2))\<lparr>kingSide := False\<rparr>\<rparr>\<rparr>
                      else g2)
                else g2);
          g4 = (if truthy blackPiece \<and> pieceChar blackPiece 1 = Some CHR ''R''
                then (if from_sq blackMove = ''a8''
                      then g3\<lparr>rooksMovedBlack := (rooksMovedBlack g3)\<lparr>a8 := True\<rparr>,
                              castlingRights := (castlingRights g3)
                                \<lparr>black := (black (castlingRights g3))\<lparr>queenSide := False\<rparr>\<rparr>\<rparr>
                      else if from_sq blackMove = ''h8''
                      then g3\<lparr>rooksMovedBlack := (rooksMovedBlack g3)\<lparr>h8 := True\<rparr>,
                              castlingRights := (castlingRights g3)
                                \<lparr>black := (black (castlingRights g3))\<lparr>kingSide := False\<rparr>\<rparr>\<rparr>
                      else g3)
                else g3);
          g5 = (if truthy whiteDest \<and> pieceChar whiteDest 1 = Some CHR ''R''
                then (let g4a = (if to_sq whiteMove = ''a8''
                                 then g4\<lparr>castlingRights := (castlingRights g4)
                                        \<lparr>black := (black (castlingRights g4))\<lparr>queenSide := False\<rparr>\<rparr>\<rparr>
                                 else g4)
                      in if to_sq whiteMove = ''h8''
                         then g4a\<lparr>castlingRights := (castlingRights g4a)
                                  \<lparr>black := (black (castlingRights g4a))\<lparr>kingSide := False\<rparr>\<rparr>\<rparr>
                         else g4a)
                else g4)
      in if truthy blackDest \<and> pieceChar blackDest 1 = Some CHR ''R''
         then (let g5a = (if to_sq blackMove = ''a1''
                          then g5\<lparr>castlingRights := (castlingRights g5)
                                 \<lparr>white := (white (castlingRights g5))\<lparr>queenSide := False\<rparr>\<rparr>\<rparr>
                          else g5)
               in if to_sq blackMove = ''h1''
                  then g5a\<lparr>castlingRights := (castlingRights g5a)
                           \<lparr>white := (white (castlingRights g5a))\<lparr>kingSide := False\<rparr>\<rparr>\<rparr>
                  else g5a)
         else g5)"

text \<open>
  The terminal evaluator, in the order of the source: a result of the collision stands;
  else a missing king decides; else checkmate; else stalemate. The third branch of the
  checkmate test is written as the source has it, after the two single-colour branches.
\<close>

definition missingKingResult :: "string option \<Rightarrow> bool \<Rightarrow> bool \<Rightarrow> string option" where
  "missingKingResult r whiteKingExists blackKingExists =
     (if truthy r then r
      else if \<not> whiteKingExists \<and> \<not> blackKingExists then Some ''draw''
      else if \<not> whiteKingExists then Some ''blackWins''
      else if \<not> blackKingExists then Some ''whiteWins''
      else r)"

definition checkmateResult ::
  "string option \<Rightarrow> board \<Rightarrow> bool perColor \<Rightarrow> castlingRights \<Rightarrow> square option \<Rightarrow> string option"
where
  "checkmateResult r newBoard chk cr ep =
     (if truthy r then r
      else if white chk \<and> isCheckmate newBoard CHR ''w'' cr ep then Some ''blackWins''
      else if black chk \<and> isCheckmate newBoard CHR ''b'' cr ep then Some ''whiteWins''
      else if white chk \<and> black chk \<and> isCheckmate newBoard CHR ''w'' cr ep
              \<and> isCheckmate newBoard CHR ''b'' cr ep then Some ''draw''
      else r)"

definition stalemateResult ::
  "string option \<Rightarrow> board \<Rightarrow> bool \<Rightarrow> bool \<Rightarrow> bool perColor \<Rightarrow> castlingRights \<Rightarrow> square option
     \<Rightarrow> string option"
where
  "stalemateResult r newBoard whiteKingExists blackKingExists chk cr ep =
     (if truthy r then r
      else
        (let whiteStalemated = (whiteKingExists \<and> \<not> white chk
                                  \<and> isStalemate newBoard CHR ''w'' cr ep);
             blackStalemated = (blackKingExists \<and> \<not> black chk
                                  \<and> isStalemate newBoard CHR ''b'' cr ep)
         in if whiteStalemated \<and> blackStalemated then Some ''draw''
            else if whiteStalemated then Some ''draw''
            else if blackStalemated then Some ''draw''
            else r))"

definition historyOf :: "move \<Rightarrow> piece option \<Rightarrow> historyMove" where
  "historyOf m p =
     \<lparr>h_from = from_sq m, h_to = to_sq m, h_piece = p, h_promotion = promotion m\<rparr>"

text \<open>
  Where the resolution throws on a square off the board. \<open>processMoves\<close> reads
  \<open>board[rank][file]\<close> for both from-squares at its start and for both to-squares when
  it updates the castling rights, so a from-rank or a to-rank that is no row throws. With
  different destinations it also reads the to-square to place the piece: for a to-file
  off the board that read is \<open>undefined\<close>; the first test (\<open>=== blackPiece\<close>, with a move
  of black that goes somewhere) holds only if black's piece is \<open>undefined\<close> too, that is if
  black's from-file is off the board; otherwise \<open>=== null\<close> fails and \<open>undefined[0]\<close>
  throws. The same for black.
\<close>

definition placeReadThrows :: "move \<Rightarrow> move \<Rightarrow> bool" where
  "placeReadThrows m other =
     (\<not> fileOnBoard (squareToCoords (to_sq m))
      \<and> \<not> (\<not> fileOnBoard (squareToCoords (from_sq other)) \<and> from_sq other \<noteq> to_sq other))"

definition resolveThrows :: "move \<Rightarrow> move \<Rightarrow> bool" where
  "resolveThrows whiteMove blackMove =
     (\<not> rankOnBoard (squareToCoords (from_sq whiteMove))
      \<or> \<not> rankOnBoard (squareToCoords (from_sq blackMove))
      \<or> \<not> rankOnBoard (squareToCoords (to_sq whiteMove))
      \<or> \<not> rankOnBoard (squareToCoords (to_sq blackMove))
      \<or> (to_sq whiteMove \<noteq> to_sq blackMove
          \<and> (placeReadThrows whiteMove blackMove \<or> placeReadThrows blackMove whiteMove)))"

text \<open>
  \<open>processMoves\<close> mutates the game; the model returns the new game, whose fields
  \<open>position\<close>, \<open>inCheck\<close> and \<open>gameResult\<close> are the object the source returns. \<open>None\<close> is the
  TypeError of a missing pending move, of \<open>resolveThrows\<close> or of \<open>promotionThrows\<close>.
\<close>

definition processMoves :: "game \<Rightarrow> game option" where
  "processMoves g =
     (case white (pendingMoves g) of
        None \<Rightarrow> None
      | Some whiteMove \<Rightarrow>
     (case black (pendingMoves g) of
        None \<Rightarrow> None
      | Some blackMove \<Rightarrow>
          (let board = positionToBoard (position g);
               whitePiece = board (squareToCoords (from_sq whiteMove));
               blackPiece = board (squareToCoords (from_sq blackMove))
           in if resolveThrows whiteMove blackMove
                 \<or> promotionThrows whiteMove whitePiece \<or> promotionThrows blackMove blackPiece
              then None
              else
                (let newBoard = resolveBoard board whiteMove blackMove;
                     g1 = g\<lparr>enPassantTarget := passantTarget board whiteMove blackMove\<rparr>;
                     g2 = updateCastlingRights board whiteMove blackMove g1;
                     chk = \<lparr>white = isInCheck newBoard CHR ''w'',
                            black = isInCheck newBoard CHR ''b''\<rparr>;
                     g3 = g2\<lparr>position := boardToPosition newBoard,
                             moveHistory := moveHistory g2
                                @ [\<lparr>white = historyOf whiteMove whitePiece,
                                    black = historyOf blackMove blackPiece\<rparr>],
                             lastMovedPieces :=
                                \<lparr>white = promotedPiece CHR ''w'' whiteMove whitePiece,
                                 black = promotedPiece CHR ''b'' blackMove blackPiece\<rparr>,
                             lastMoves := \<lparr>white = Some whiteMove, black = Some blackMove\<rparr>,
                             inCheck := chk\<rparr>;
                     whiteKingExists = doesKingExist newBoard CHR ''w'';
                     blackKingExists = doesKingExist newBoard CHR ''b'';
                     r0 = collisionResult whiteMove blackMove whitePiece blackPiece;
                     r1 = missingKingResult r0 whiteKingExists blackKingExists;
                     r2 = checkmateResult r1 newBoard chk (castlingRights g3)
                            (enPassantTarget g3);
                     r3 = stalemateResult r2 newBoard whiteKingExists blackKingExists chk
                            (castlingRights g3) (enPassantTarget g3);
                     g4 = g3\<lparr>gameResult := r3\<rparr>
                 in Some (if truthy r3
                          then g4\<lparr>timerRunning := False,
                                  timers := (timers g4)\<lparr>whiteActive := False,
                                                         blackActive := False\<rparr>\<rparr>
                          else g4)))))"

section \<open>The socket handlers\<close>

text \<open>
  \<open>submitMove\<close> and \<open>promotePawn\<close> are the handlers that lead to \<open>processMoves\<close>; joining,
  settings, disconnects and the clock's interval are not part of this development.
  A handler runs on the game of its room, for the socket that sent the message, and
  emits events: \<open>socket.emit\<close> reaches the sending socket only, \<open>io.to(room).emit\<close>
  reaches both players. An event keeps its name and, for an error or a promotion
  request, its text. \<open>Date.now()\<close> is the argument \<open>now\<close>. A handler returns \<open>None\<close> when
  it throws: in \<open>isLegalMove\<close> (\<open>validateThrows\<close>), in the read of the pending move's
  from-square (\<open>promotePawnThrows\<close>) or in \<open>processMoves\<close>.
\<close>

datatype event = SocketEmit string string | RoomEmit string

definition playerColor :: "game \<Rightarrow> string \<Rightarrow> colorName option" where
  "playerColor g socketId =
     (if whiteId g = Some socketId then Some White
      else if blackId g = Some socketId then Some Black
      else None)"

definition colorChar :: "colorName \<Rightarrow> char" where
  "colorChar cn = (case cn of White \<Rightarrow> CHR ''w'' | Black \<Rightarrow> CHR ''b'')"

text \<open>
  The search of the repeat rule for another piece that can move: every other piece of
  the colour, every square, \<open>isLegalMove\<close> alone.
\<close>

fun legalMoveTo ::
  "board \<Rightarrow> castlingRights \<Rightarrow> square option \<Rightarrow> coords \<Rightarrow> coords list \<Rightarrow> bool"
where
  "legalMoveTo b cr ep c [] = False"
| "legalMoveTo b cr ep c (d # ds) =
     (if isLegalMove b (coordsToSquare c) (coordsToSquare d) (take 2 (the (b c))) cr ep
      then True
      else legalMoveTo b cr ep c ds)"

fun otherPieceCanMove ::
  "board \<Rightarrow> char \<Rightarrow> piece \<Rightarrow> castlingRights \<Rightarrow> square option \<Rightarrow> coords list \<Rightarrow> bool"
where
  "otherPieceCanMove b color p cr ep [] = False"
| "otherPieceCanMove b color p cr ep (c # cs) =
     (if truthy (b c) \<and> pieceChar (b c) 0 = Some color \<and> b c \<noteq> Some p
      then (if legalMoveTo b cr ep c allCoords then True
            else otherPieceCanMove b color p cr ep cs)
      else otherPieceCanMove b color p cr ep cs)"

definition repeatAllowed :: "game \<Rightarrow> colorName \<Rightarrow> board \<Rightarrow> piece \<Rightarrow> bool" where
  "repeatAllowed g colorName board p =
     (let kingExceptionApplies = (charAt p 1 = Some CHR ''K'' \<and> sel colorName (inCheck g));
          kingExtraMoveApplies = (charAt p 1 = Some CHR ''K'' \<and> sel colorName (inCheck g));
          hasOtherValidMoves =
            (if \<not> kingExceptionApplies \<and> \<not> kingExtraMoveApplies
             then otherPieceCanMove board (colorChar colorName) p (castlingRights g)
                    (enPassantTarget g) allCoords
             else False)
      in kingExceptionApplies \<or> kingExtraMoveApplies \<or> \<not> hasOtherValidMoves)"

text \<open>
  The checks of \<open>submitMove\<close> between the lookup of the player and the storing of the
  move, in their order; the result is the text of the error, or \<open>None\<close> when the move
  passes. The fourth check calls \<open>isLegalMove\<close> with the client's \<open>to\<close>, and that call throws
  when the rank of \<open>to\<close> is no row of the board: \<open>validateThrows\<close> says that the first three
  checks pass and the call throws. \<open>validateMove\<close> is the outcome of the checks when
  \<open>validateThrows\<close> does not hold.
\<close>

definition validateMove :: "game \<Rightarrow> colorName \<Rightarrow> move \<Rightarrow> string option" where
  "validateMove g colorName m =
     (let color = colorChar colorName;
          board = positionToBoard (position g);
          fromCoords = squareToCoords (from_sq m);
          toCoords = squareToCoords (to_sq m)
      in if \<not> truthy (board fromCoords) then Some ''No piece at starting position''
         else
           (let p = the (board fromCoords)
            in if charAt p 0 \<noteq> Some color then Some ''Not your piece''
               else if Some p = sel colorName (lastMovedPieces g)
                       \<and> \<not> repeatAllowed g colorName board p
                 then Some ''Cannot move the same piece twice in a row''
               else if \<not> isLegalMove board (from_sq m) (to_sq m) (take 2 p)
                            (castlingRights g) (enPassantTarget g)
                 then Some ''Illegal move''
               else if sel colorName (inCheck g)
                       \<and> isInCheck (board(fromCoords := None, toCoords := Some p)) color
                 then Some ''Your king is in check! You must make a move that resolves the check.''
               else None))"

definition validateThrows :: "game \<Rightarrow> colorName \<Rightarrow> move \<Rightarrow> bool" where
  "validateThrows g colorName m =
     (let color = colorChar colorName;
          board = positionToBoard (position g);
          fromCoords = squareToCoords (from_sq m);
          toCoords = squareToCoords (to_sq m)
      in if \<not> truthy (board fromCoords) then False
         else
           (let p = the (board fromCoords)
            in if charAt p 0 \<noteq> Some color then False
               else if Some p = sel colorName (lastMovedPieces g)
                       \<and> \<not> repeatAllowed g colorName board p
                 then False
               else \<not> rankOnBoard toCoords))"

definition isPawnPromotion :: "game \<Rightarrow> colorName \<Rightarrow> move \<Rightarrow> bool" where
  "isPawnPromotion g colorName m =
     (pieceChar (positionToBoard (position g) (squareToCoords (from_sq m))) 1 = Some CHR ''P''
      \<and> ((colorName = White \<and> charAt (to_sq m) 1 = Some CHR ''8'')
         \<or> (colorName = Black \<and> charAt (to_sq m) 1 = Some CHR ''1'')))"

text \<open>
  The end of both handlers: when both colours have a pending move, the round is
  resolved, the pending moves are reset and both clocks start again.
\<close>

definition finishRound :: "int \<Rightarrow> game \<Rightarrow> event list \<Rightarrow> (game \<times> event list) option" where
  "finishRound now g evs =
     (if white (pendingMoves g) \<noteq> None \<and> black (pendingMoves g) \<noteq> None
      then (case processMoves g of
              None \<Rightarrow> None
            | Some g' \<Rightarrow>
                Some (g'\<lparr>pendingMoves := both None,
                         timers := (timers g')\<lparr>whiteActive := True, blackActive := True,
                                               lastUpdate := now\<rparr>\<rparr>,
                      evs @ [RoomEmit ''boardState'', RoomEmit ''gameState'']))
      else Some (g, evs))"

definition submitMove :: "string \<Rightarrow> move \<Rightarrow> int \<Rightarrow> game \<Rightarrow> (game \<times> event list) option" where
  "submitMove socketId m now g =
     (case playerColor g socketId of
        None \<Rightarrow> Some (g, [SocketEmit ''error'' ''You are not a player in this game''])
      | Some colorName \<Rightarrow>
          (let started = (if gameStarted g then [] else [RoomEmit ''gameStarted'']);
               g1 = (if gameStarted g then g else g\<lparr>gameStarted := True\<rparr>)
           in if validateThrows g1 colorName m then None
              else case validateMove g1 colorName m of
                Some err \<Rightarrow> Some (g1, started @ [SocketEmit ''error'' err])
              | None \<Rightarrow>
                  if isPawnPromotion g1 colorName m
                  then Some (g1\<lparr>pendingMoves := upd colorName (Some m) (pendingMoves g1)\<rparr>,
                             started @ [SocketEmit ''promotionNeeded'' (to_sq m)])
                  else finishRound now
                         (checkTimerStatus
                            (g1\<lparr>pendingMoves := upd colorName (Some m) (pendingMoves g1)\<rparr>))
                         (started @ [SocketEmit ''moveAccepted'' [], RoomEmit ''timerUpdate''])))"

text \<open>
  \<open>promotePawn\<close>: the checks, each with its error, then the choice is attached to the
  pending move (\<open>promotion\<close> and \<open>promotedPieceId = color + pieceType + piece.substring(2)\<close>).
\<close>

definition promotionError :: "game \<Rightarrow> colorName \<Rightarrow> square \<Rightarrow> string \<Rightarrow> string option" where
  "promotionError g colorName sq pieceType =
     (if pieceType \<notin> set [''Q'', ''R'', ''N'', ''B''] then Some ''Invalid promotion piece type''
      else case sel colorName (pendingMoves g) of
        None \<Rightarrow> Some ''No pending move requiring promotion''
      | Some pendingMove \<Rightarrow>
          if to_sq pendingMove \<noteq> sq then Some ''Square mismatch for promotion''
          else
            (let p = positionToBoard (position g) (squareToCoords (from_sq pendingMove))
             in if \<not> truthy p \<or> pieceChar p 0 \<noteq> Some (colorChar colorName)
                   \<or> pieceChar p 1 \<noteq> Some CHR ''P''
                then Some ''No pawn found for promotion''
                else if (colorName = White \<and> charAt sq 1 \<noteq> Some CHR ''8'')
                        \<or> (colorName = Black \<and> charAt sq 1 \<noteq> Some CHR ''1'')
                then Some ''Pawn is not moving to the promotion rank''
                else None))"

text \<open>
  After the square of the request has matched the pending move, \<open>promotePawn\<close> reads
  \<open>board[fromCoords.rank][fromCoords.file]\<close> for the pending move's from-square, which
  throws when that rank is no row of the board.
\<close>

definition promotePawnThrows :: "game \<Rightarrow> colorName \<Rightarrow> square \<Rightarrow> string \<Rightarrow> bool" where
  "promotePawnThrows g colorName sq pieceType =
     (if pieceType \<notin> set [''Q'', ''R'', ''N'', ''B''] then False
      else case sel colorName (pendingMoves g) of
        None \<Rightarrow> False
      | Some pendingMove \<Rightarrow>
          if to_sq pendingMove \<noteq> sq then False
          else \<not> rankOnBoard (squareToCoords (from_sq pendingMove)))"

definition promotePawn ::
  "string \<Rightarrow> square \<Rightarrow> string \<Rightarrow> int \<Rightarrow> game \<Rightarrow> (game \<times> event list) option"
where
  "promotePawn socketId sq pieceType now g =
     (case playerColor g socketId of
        None \<Rightarrow> Some (g, [SocketEmit ''error'' ''You are not a player in this game''])
      | Some colorName \<Rightarrow>
          (if promotePawnThrows g colorName sq pieceType then None
           else case promotionError g colorName sq pieceType of
             Some err \<Rightarrow> Some (g, [SocketEmit ''error'' err])
           | None \<Rightarrow>
               (let pendingMove = the (sel colorName (pendingMoves g));
                    p = the (positionToBoard (position g) (squareToCoords (from_sq pendingMove)));
                    promotedPieceId = colorChar colorName # pieceType @ drop 2 p;
                    g1 = g\<lparr>pendingMoves :=
                             upd colorName
                               (Some (pendingMove\<lparr>promotion := Some pieceType,
                                                  promotedPieceId := Some promotedPieceId\<rparr>))
                               (pendingMoves g)\<rparr>
                in finishRound now (checkTimerStatus g1)
                     [RoomEmit ''timerUpdate'', SocketEmit ''promotionConfirmed'' sq])))"

section \<open>Predicates used in the statements\<close>

text \<open>
  The piece a pending move moves, and what it means for a move to be individually legal
  for a colour on the position of a game: both squares are squares of the board, the
  from-square holds a piece of that colour, and \<open>isLegalMove\<close> accepts the move with the
  game's castling rights and en-passant target. \<open>wfPosition\<close> says that every piece of a
  position is white or black.
\<close>

definition movedPiece :: "game \<Rightarrow> move \<Rightarrow> piece option" where
  "movedPiece g m = positionToBoard (position g) (squareToCoords (from_sq m))"

definition legalFor :: "game \<Rightarrow> colorName \<Rightarrow> move \<Rightarrow> bool" where
  "legalFor g cn m =
     (wfSquare (from_sq m) \<and> wfSquare (to_sq m)
      \<and> truthy (movedPiece g m)
      \<and> pieceChar (movedPiece g m) 0 = Some (colorChar cn)
      \<and> isLegalMove (positionToBoard (position g)) (from_sq m) (to_sq m)
            (take 2 (the (movedPiece g m))) (castlingRights g) (enPassantTarget g))"

definition wfPosition :: "position \<Rightarrow> bool" where
  "wfPosition pos =
     list_all (\<lambda>(sq, p). charAt p 0 = Some CHR ''w'' \<or> charAt p 0 = Some CHR ''b'') pos"

text \<open>
  \<open>positionOnBoard\<close>: every key of a position is a square of the board, as in every
  position the server builds.
\<close>

definition positionOnBoard :: "position \<Rightarrow> bool" where
  "positionOnBoard pos = list_all (\<lambda>(sq, p). wfSquare sq) pos"

text \<open>
  \<open>pendingSound\<close>: the pending move of a colour, if there is one, names two squares of
  the board and starts on an occupied square. \<open>pendingOnBoard\<close> is its first half.
  \<open>startedEvents\<close> is the announcement that \<open>submitMove\<close> sends to the room with the first
  submission of a game.
\<close>

definition otherColor :: "colorName \<Rightarrow> colorName" where
  "otherColor cn = (case cn of White \<Rightarrow> Black | Black \<Rightarrow> White)"

definition pendingOnBoard :: "game \<Rightarrow> colorName \<Rightarrow> bool" where
  "pendingOnBoard g cn =
     (case sel cn (pendingMoves g) of
        None \<Rightarrow> True
      | Some om \<Rightarrow> wfSquare (from_sq om) \<and> wfSquare (to_sq om))"

definition pendingSound :: "game \<Rightarrow> colorName \<Rightarrow> bool" where
  "pendingSound g cn =
     (case sel cn (pendingMoves g) of
        None \<Rightarrow> True
      | Some om \<Rightarrow> wfSquare (from_sq om) \<and> wfSquare (to_sq om) \<and> truthy (movedPiece g om))"

definition startedEvents :: "game \<Rightarrow> event list" where
  "startedEvents g = (if gameStarted g then [] else [RoomEmit ''gameStarted''])"

text \<open>A pawn's advance of two ranks, as \<open>processMoves\<close> tests it.\<close>

definition doubleAdvance :: "board \<Rightarrow> move \<Rightarrow> bool" where
  "doubleAdvance b m =
     (truthy (b (squareToCoords (from_sq m)))
      \<and> pieceChar (b (squareToCoords (from_sq m))) 1 = Some CHR ''P''
      \<and> \<bar>fst (squareToCoords (from_sq m)) - fst (squareToCoords (to_sq m))\<bar> = 2)"

section \<open>Example games\<close>

text \<open>
  The games on which the theorems are run. Each is the initial game state with a
  position, the two players' sockets (\<open>W\<close> and \<open>B\<close>) and, where the round is about to be
  resolved, the two pending moves. \<open>mv\<close> is a move as the client sends it, with no
  promotion attached.
\<close>

definition mv :: "square \<Rightarrow> square \<Rightarrow> move" where
  "mv f t = \<lparr>from_sq = f, to_sq = t, promotion = None, promotedPieceId = None\<rparr>"

definition startGame :: game where
  "startGame = (createGameState 300 0)\<lparr>whiteId := Some ''W'', blackId := Some ''B''\<rparr>"

text \<open>A white pawn attacks a knight that moves away in the same round.\<close>

definition swerveGame :: game where
  "swerveGame = (createGameState 300 0)
     \<lparr>position := [(''e1'', ''wK''), (''e8'', ''bK''), (''e5'', ''wPe''), (''f6'', ''bN2'')],
      whiteId := Some ''W'', blackId := Some ''B'',
      pendingMoves := \<lparr>white = Some (mv ''e5'' ''f6''), black = Some (mv ''f6'' ''g8'')\<rparr>\<rparr>"

text \<open>
  A white bishop pinned to its king by a rook on the e-file; the king moved last.
\<close>

definition pinGame :: game where
  "pinGame = (createGameState 300 0)
     \<lparr>position := [(''e1'', ''wK''), (''e2'', ''wB1''), (''e8'', ''bR1''), (''h8'', ''bK'')],
      whiteId := Some ''W'', blackId := Some ''B'',
      lastMovedPieces := \<lparr>white = Some ''wK'', black = Some ''bR1''\<rparr>,
      castlingRights := noCastling\<rparr>"

text \<open>The same game when black has already submitted a king move for the round.\<close>

definition pinPendingGame :: game where
  "pinPendingGame =
     pinGame\<lparr>pendingMoves := \<lparr>white = None, black = Some (mv ''h8'' ''g8'')\<rparr>\<rparr>"

text \<open>
  Both colours advance a pawn two ranks, and a black pawn on d4 stands beside the square
  where white's pawn lands; in \<open>passantSingleGame\<close> black's pawn advances one rank only.
\<close>

definition passantGame :: game where
  "passantGame = (createGameState 300 0)
     \<lparr>position := [(''e1'', ''wK''), (''e8'', ''bK''), (''e2'', ''wPe''), (''d4'', ''bPd''),
                   (''h7'', ''bPh'')],
      whiteId := Some ''W'', blackId := Some ''B'',
      castlingRights := noCastling,
      pendingMoves := \<lparr>white = Some (mv ''e2'' ''e4''), black = Some (mv ''h7'' ''h5'')\<rparr>\<rparr>"

definition passantSingleGame :: game where
  "passantSingleGame =
     passantGame\<lparr>pendingMoves := \<lparr>white = Some (mv ''e2'' ''e4''),
                                     black = Some (mv ''h7'' ''h6'')\<rparr>\<rparr>"

text \<open>
  A white pawn one step from promotion: before any submission, and with the pawn's
  move pending.
\<close>

definition pawnGame :: game where
  "pawnGame = (createGameState 300 0)
     \<lparr>position := [(''e1'', ''wK''), (''e8'', ''bK''), (''a7'', ''wPa''), (''h7'', ''bPh'')],
      whiteId := Some ''W'', blackId := Some ''B'',
      castlingRights := noCastling\<rparr>"

definition promotionGame :: game where
  "promotionGame = (createGameState 300 0)
     \<lparr>position := [(''e1'', ''wK''), (''e8'', ''bK''), (''a7'', ''wPa''), (''h7'', ''bPh'')],
      whiteId := Some ''W'', blackId := Some ''B'',
      castlingRights := noCastling,
      gameStarted := True,
      pendingMoves := \<lparr>white = Some (mv ''a7'' ''a8''), black = None\<rparr>\<rparr>"

text \<open>Two rooks that mate both kings on their back ranks in the same round.\<close>

definition doubleMateGame :: game where
  "doubleMateGame = (createGameState 300 0)
     \<lparr>position := [(''h1'', ''wK''), (''g2'', ''wPg''), (''h2'', ''wPh''), (''a4'', ''wPa''),
                   (''a7'', ''wR1''),
                   (''h8'', ''bK''), (''g7'', ''bPg''), (''h7'', ''bPh''), (''a5'', ''bPa''),
                   (''a2'', ''bR1'')],
      whiteId := Some ''W'', blackId := Some ''B'',
      castlingRights := noCastling,
      gameStarted := True,
      pendingMoves := \<lparr>white = Some (mv ''a7'' ''a8''), black = Some (mv ''a2'' ''a1'')\<rparr>\<rparr>"

text \<open>
  White may castle king side; a black knight can move to g1 (\<open>castleGame\<close>), or a black
  rook attacks g1 (\<open>castleAttackedGame\<close>).
\<close>

definition castleGame :: game where
  "castleGame = (createGameState 300 0)
     \<lparr>position := [(''e1'', ''wK''), (''h1'', ''wR2''), (''e8'', ''bK''), (''h3'', ''bN2'')],
      whiteId := Some ''W'', blackId := Some ''B'',
      castlingRights := \<lparr>white = \<lparr>kingSide = True, queenSide = False\<rparr>,
                          black = \<lparr>kingSide = False, queenSide = False\<rparr>\<rparr>,
      gameStarted := True,
      pendingMoves := \<lparr>white = Some (mv ''e1'' ''g1''), black = Some (mv ''h3'' ''g1'')\<rparr>\<rparr>"

definition castleAttackedGame :: game where
  "castleAttackedGame = (createGameState 300 0)
     \<lparr>position := [(''e1'', ''wK''), (''h1'', ''wR2''), (''e8'', ''bK''), (''g8'', ''bR2'')],
      whiteId := Some ''W'', blackId := Some ''B'',
      castlingRights := \<lparr>white = \<lparr>kingSide = True, queenSide = False\<rparr>,
                          black = \<lparr>kingSide = False, queenSide = False\<rparr>\<rparr>,
      gameStarted := True\<rparr>"

text \<open>A game that has ended in a draw: the black king is stalemated.\<close>

definition stalemateGame :: game where
  "stalemateGame = (createGameState 300 0)
     \<lparr>position := [(''a8'', ''bK''), (''b6'', ''wQ''), (''c1'', ''wK'')],
      whiteId := Some ''W'', blackId := Some ''B'',
      lastMovedPieces := \<lparr>white = Some ''wQ'', black = Some ''bK''\<rparr>,
      castlingRights := noCastling,
      timers := \<lparr>timeControl = 300, whiteTime = 100, blackTime = 100, lastUpdate = 0,
                 whiteActive = True, blackActive = True\<rparr>,
      gameStarted := True,
      gameResult := Some ''draw''\<rparr>"

section \<open>The sliding loops\<close>

lemma slideLoopOr_count:
  assumes "rs \<noteq> 0 \<or> fs \<noteq> 0"
  shows "slideLoopOr b (tr - int k * rs, tf - int k * fs) (rs, fs) (tr, tf)
         = Some (pathClear b (tr - int k * rs, tf - int k * fs) (rs, fs) k)"
proof (induction k)
  case 0
  show ?case by (subst slideLoopOr.simps) simp
next
  case (Suc k)
  have ne: "tr - int (Suc k) * rs \<noteq> tr \<or> tf - int (Suc k) * fs \<noteq> tf"
    using assms by auto
  have step: "(tr - int (Suc k) * rs + rs, tf - int (Suc k) * fs + fs)
              = (tr - int k * rs, tf - int k * fs)"
    by (simp add: algebra_simps)
  show ?case
    apply (subst slideLoopOr.simps)
    using ne apply (simp add: step Suc.IH del: of_nat_Suc)
    done
qed

lemma slideLoopAnd_count:
  assumes "rs \<noteq> 0" and "fs \<noteq> 0"
  shows "slideLoopAnd b (tr - int k * rs, tf - int k * fs) (rs, fs) (tr, tf)
         = Some (pathClear b (tr - int k * rs, tf - int k * fs) (rs, fs) k)"
proof (induction k)
  case 0
  show ?case by (subst slideLoopAnd.simps) simp
next
  case (Suc k)
  have ne: "tr - int (Suc k) * rs \<noteq> tr \<and> tf - int (Suc k) * fs \<noteq> tf"
    using assms by auto
  have step: "(tr - int (Suc k) * rs + rs, tf - int (Suc k) * fs + fs)
              = (tr - int k * rs, tf - int k * fs)"
    by (simp add: algebra_simps)
  show ?case
    apply (subst slideLoopAnd.simps)
    using ne apply (simp add: step Suc.IH del: of_nat_Suc)
    done
qed

lemma aligned_steps:
  assumes "rd = 0 \<or> fd = 0 \<or> \<bar>rd\<bar> = \<bar>fd\<bar>" and "rd \<noteq> 0 \<or> fd \<noteq> 0"
  shows "fr + sgn rd = fr + rd - int (stepsBetween rd fd) * sgn rd"
    and "ff + sgn fd = ff + fd - int (stepsBetween rd fd) * sgn fd"
proof -
  let ?n = "max \<bar>rd\<bar> \<bar>fd\<bar>"
  have n: "int (stepsBetween rd fd) = ?n - 1"
    using assms(2) by (auto simp: stepsBetween_def)
  have r: "rd = ?n * sgn rd" using assms(1) by (auto simp: sgn_if max_def)
  have f: "fd = ?n * sgn fd" using assms(1) by (auto simp: sgn_if max_def)
  show "fr + sgn rd = fr + rd - int (stepsBetween rd fd) * sgn rd"
    unfolding n using r by (simp add: algebra_simps)
  show "ff + sgn fd = ff + fd - int (stepsBetween rd fd) * sgn fd"
    unfolding n using f by (simp add: algebra_simps)
qed

lemma slideClear_is_rook_loop:
  assumes "rd = 0 \<or> fd = 0 \<or> \<bar>rd\<bar> = \<bar>fd\<bar>"
  shows "slideLoopOr b (fr + sgn rd, ff + sgn fd) (sgn rd, sgn fd) (fr + rd, ff + fd)
         = Some (slideClear b (fr, ff) rd fd)"
proof (cases "rd \<noteq> 0 \<or> fd \<noteq> 0")
  case True
  then have s: "sgn rd \<noteq> 0 \<or> sgn fd \<noteq> 0" by (auto simp: sgn_if)
  show ?thesis
    unfolding slideClear_def fst_conv snd_conv
    unfolding aligned_steps[OF assms True]
    by (rule slideLoopOr_count[OF s])
next
  case False
  then show ?thesis
    by (subst slideLoopOr.simps) (simp add: slideClear_def stepsBetween_def)
qed

lemma slideClear_is_bishop_loop:
  assumes "\<bar>rd\<bar> = \<bar>fd\<bar>"
  shows "slideLoopAnd b (fr + sgn rd, ff + sgn fd) (sgn rd, sgn fd) (fr + rd, ff + fd)
         = Some (slideClear b (fr, ff) rd fd)"
proof (cases "rd \<noteq> 0 \<or> fd \<noteq> 0")
  case True
  with assms have s: "sgn rd \<noteq> 0" "sgn fd \<noteq> 0" by (auto simp: sgn_if)
  from assms have a: "rd = 0 \<or> fd = 0 \<or> \<bar>rd\<bar> = \<bar>fd\<bar>" by simp
  show ?thesis
    unfolding slideClear_def fst_conv snd_conv
    unfolding aligned_steps[OF a True]
    by (rule slideLoopAnd_count[OF s])
next
  case False
  then show ?thesis
    by (subst slideLoopAnd.simps) (simp add: slideClear_def stepsBetween_def)
qed

section \<open>Lemmas about the board\<close>

lemma squareToCoords_coordsToSquare:
  "inRange c \<Longrightarrow> squareToCoords (coordsToSquare c) = c"
  by (cases c) (simp add: inRange_def squareToCoords_def coordsToSquare_def)

lemma wfSquare_inRange: "wfSquare s \<Longrightarrow> inRange (squareToCoords s)"
  by (simp add: wfSquare_def)

lemma wfSquare_coords_eq:
  "wfSquare s \<Longrightarrow> wfSquare t \<Longrightarrow> squareToCoords s = squareToCoords t \<Longrightarrow> s = t"
  by (metis wfSquare_def)

lemma set_allCoords: "c \<in> set allCoords \<longleftrightarrow> inRange c"
  by (cases c) (force simp: allCoords_def inRange_def)

lemma fold_write_boardToPosition:
  "\<forall>c \<in> set cs. inRange c \<Longrightarrow>
   fold (\<lambda>(sq, p) b. b(squareToCoords sq := Some p))
     (concat (map (\<lambda>c. case b c of None \<Rightarrow> []
                        | Some p \<Rightarrow> if p \<noteq> [] then [(coordsToSquare c, p)] else []) cs)) b0 c
   = (if c \<in> set cs \<and> truthy (b c) then b c else b0 c)"
proof (induction cs arbitrary: b0)
  case Nil
  then show ?case by simp
next
  case (Cons a cs)
  then show ?case
    by (auto simp: truthy_def squareToCoords_coordsToSquare split: option.splits)
qed

lemma positionToBoard_boardToPosition:
  "positionToBoard (boardToPosition b) c = (if inRange c \<and> truthy (b c) then b c else None)"
  unfolding positionToBoard_def boardToPosition_def
  by (subst fold_write_boardToPosition) (auto simp: set_allCoords emptyBoard_def)

lemma fold_write_source:
  "fold (\<lambda>(sq, p) b. b(squareToCoords sq := Some p)) pos b0 c = Some p \<Longrightarrow>
   b0 c = Some p \<or> p \<in> snd ` set pos"
proof (induction pos arbitrary: b0)
  case Nil
  then show ?case by simp
next
  case (Cons a pos)
  obtain sq q where a: "a = (sq, q)" by (cases a)
  from Cons.prems have "fold (\<lambda>(sq, p) b. b(squareToCoords sq := Some p)) pos
        (b0(squareToCoords sq := Some q)) c = Some p"
    unfolding a by (simp only: fold_simps comp_apply prod.case)
  then have "(b0(squareToCoords sq := Some q)) c = Some p \<or> p \<in> snd ` set pos"
    by (rule Cons.IH)
  then show ?case
    by (cases "c = squareToCoords sq") (auto simp: a)
qed

lemma positionToBoard_source:
  "positionToBoard pos c = Some p \<Longrightarrow> p \<in> snd ` set pos"
  unfolding positionToBoard_def using fold_write_source[of pos emptyBoard c p]
  by (simp add: emptyBoard_def)

lemma isLegalMove_not_own:
  assumes "isLegalMove b f t (take 2 p) cr ep" and "charAt p 0 = Some color"
  shows "\<not> (truthy (b (squareToCoords t)) \<and> pieceChar (b (squareToCoords t)) 0 = Some color)"
proof -
  from assms(2) obtain rest where p: "p = color # rest"
    by (cases p) (auto simp: charAt_def)
  show ?thesis
    using assms(1) unfolding p
    by (subst (asm) isLegalMove.simps) (auto split: if_splits)
qed

lemma wfPosition_board:
  assumes "wfPosition pos"
  shows "positionToBoard pos c = None
         \<or> (truthy (positionToBoard pos c)
            \<and> (pieceChar (positionToBoard pos c) 0 = Some CHR ''w''
               \<or> pieceChar (positionToBoard pos c) 0 = Some CHR ''b''))"
proof (cases "positionToBoard pos c")
  case None
  then show ?thesis by simp
next
  case (Some p)
  then have "p \<in> snd ` set pos" by (rule positionToBoard_source)
  then obtain sq where "(sq, p) \<in> set pos" by auto
  with assms have "charAt p 0 = Some CHR ''w'' \<or> charAt p 0 = Some CHR ''b''"
    by (auto simp: wfPosition_def list_all_iff)
  then show ?thesis
    using Some by (auto simp: truthy_def pieceChar_def charAt_def split: if_splits)
qed

lemma legal_dest_free:
  assumes "wfPosition (position g)" and "legalFor g cn m"
  shows "positionToBoard (position g) (squareToCoords (to_sq m)) = None
         \<or> pieceChar (positionToBoard (position g) (squareToCoords (to_sq m))) 0
             = Some (colorChar (case cn of White \<Rightarrow> Black | Black \<Rightarrow> White))"
proof -
  let ?b = "positionToBoard (position g)"
  from assms(2) obtain p where p: "?b (squareToCoords (from_sq m)) = Some p"
      and pc: "charAt p 0 = Some (colorChar cn)"
      and leg: "isLegalMove ?b (from_sq m) (to_sq m) (take 2 p) (castlingRights g) (enPassantTarget g)"
    by (auto simp: legalFor_def movedPiece_def truthy_def pieceChar_def split: option.splits)
  from isLegalMove_not_own[OF leg pc] wfPosition_board[OF assms(1), of "squareToCoords (to_sq m)"]
  show ?thesis
    by (cases cn) (auto simp: colorChar_def)
qed

lemma placeStep_dest:
  assumes "to_sq wm \<noteq> to_sq bm"
    and "squareToCoords (to_sq wm) \<noteq> squareToCoords (to_sq bm)"
    and "b (squareToCoords (to_sq wm)) = None
         \<or> pieceChar (b (squareToCoords (to_sq wm))) 0 = Some CHR ''b''"
    and "b (squareToCoords (to_sq bm)) = None
         \<or> pieceChar (b (squareToCoords (to_sq bm))) 0 = Some CHR ''w''"
  shows "placeStep b wm bm nb (squareToCoords (to_sq wm))
           = promotedPiece CHR ''w'' wm (b (squareToCoords (from_sq wm)))"
    and "placeStep b wm bm nb (squareToCoords (to_sq bm))
           = promotedPiece CHR ''b'' bm (b (squareToCoords (from_sq bm)))"
  using assms by (auto simp: placeStep_def Let_def)

lemma promotedPiece_truthy:
  "truthy p \<Longrightarrow> truthy (promotedPiece color m p)"
  by (auto simp: promotedPiece_def truthy_def)

lemma wfSquare_onBoard:
  "wfSquare s \<Longrightarrow> rankOnBoard (squareToCoords s) \<and> fileOnBoard (squareToCoords s)"
  by (simp add: wfSquare_def inRange_def rankOnBoard_def fileOnBoard_def)

lemma wfSquare_no_resolveThrows:
  assumes "wfSquare (from_sq wm)" and "wfSquare (to_sq wm)"
    and "wfSquare (from_sq bm)" and "wfSquare (to_sq bm)"
  shows "\<not> resolveThrows wm bm"
  using assms[THEN wfSquare_onBoard]
  by (simp add: resolveThrows_def placeReadThrows_def)

lemma processMoves_position:
  assumes "white (pendingMoves g) = Some wm" and "black (pendingMoves g) = Some bm"
    and "truthy (movedPiece g wm)" and "truthy (movedPiece g bm)"
    and "\<not> resolveThrows wm bm"
  shows "\<exists>g'. processMoves g = Some g'
           \<and> position g' = boardToPosition (resolveBoard (positionToBoard (position g)) wm bm)"
  using assms
  by (auto simp: processMoves_def Let_def promotionThrows_def movedPiece_def truthy_def
           split: option.splits)

lemma validateMove_started:
  "validateMove (g\<lparr>gameStarted := True\<rparr>) cn m = validateMove g cn m"
  by (simp add: validateMove_def repeatAllowed_def Let_def)

lemma isPawnPromotion_started:
  "isPawnPromotion (g\<lparr>gameStarted := True\<rparr>) cn m = isPawnPromotion g cn m"
  by (simp add: isPawnPromotion_def)

lemma started_cases:
  "(if gameStarted g then g else g\<lparr>gameStarted := True\<rparr>) = g\<lparr>gameStarted := True\<rparr>"
  by simp

lemma validateMove_accepts:
  assumes "\<not> sel cn (inCheck g)"
    and "legalFor g cn m"
    and "movedPiece g m \<noteq> sel cn (lastMovedPieces g)"
  shows "validateMove g cn m = None"
proof -
  from assms(2) obtain p where p: "positionToBoard (position g) (squareToCoords (from_sq m)) = Some p"
    and t: "truthy (Some p)" and c: "charAt p 0 = Some (colorChar cn)"
    and l: "isLegalMove (positionToBoard (position g)) (from_sq m) (to_sq m) (take 2 p)
              (castlingRights g) (enPassantTarget g)"
    by (auto simp: legalFor_def movedPiece_def truthy_def pieceChar_def split: option.splits)
  from assms(3) have n: "Some p \<noteq> sel cn (lastMovedPieces g)"
    by (simp add: movedPiece_def p)
  show ?thesis
    using assms(1) p t c l n by (simp add: validateMove_def Let_def)
qed

lemma repeatAllowed_started:
  "repeatAllowed (g\<lparr>gameStarted := True\<rparr>) cn b p = repeatAllowed g cn b p"
  by (simp add: repeatAllowed_def)

lemma validateThrows_started:
  "validateThrows (g\<lparr>gameStarted := True\<rparr>) cn m = validateThrows g cn m"
  unfolding validateThrows_def repeatAllowed_started by simp

lemma validateThrows_onBoard:
  "rankOnBoard (squareToCoords (to_sq m)) \<Longrightarrow> \<not> validateThrows g cn m"
  by (simp add: validateThrows_def Let_def)

lemma processMoves_returns:
  assumes "white (pendingMoves g) = Some wm" and "black (pendingMoves g) = Some bm"
    and "truthy (movedPiece g wm)" and "truthy (movedPiece g bm)"
    and "\<not> resolveThrows wm bm"
  shows "\<exists>g'. processMoves g = Some g'"
  using processMoves_position[OF assms] by blast

lemma checkTimerStatus_frame:
  "position (checkTimerStatus g) = position g"
  "pendingMoves (checkTimerStatus g) = pendingMoves g"
  by (simp_all add: checkTimerStatus_def)

lemma finishRound_events:
  assumes "finishRound now g evs = Some (g', evs')"
  shows "evs' = evs \<or> evs' = evs @ [RoomEmit ''boardState'', RoomEmit ''gameState'']"
  using assms by (auto simp: finishRound_def split: if_splits option.splits)

lemma finishRound_returns:
  assumes "pendingSound g White" and "pendingSound g Black"
  shows "\<exists>r. finishRound now g evs = Some r"
proof (cases "white (pendingMoves g) \<noteq> None \<and> black (pendingMoves g) \<noteq> None")
  case True
  then obtain wm bm where w: "white (pendingMoves g) = Some wm" and b: "black (pendingMoves g) = Some bm"
    by auto
  from assms w b have t: "truthy (movedPiece g wm)" "truthy (movedPiece g bm)"
    by (simp_all add: pendingSound_def sel_def)
  from assms w b have "wfSquare (from_sq wm)" "wfSquare (to_sq wm)"
      "wfSquare (from_sq bm)" "wfSquare (to_sq bm)"
    by (simp_all add: pendingSound_def sel_def)
  then have "\<not> resolveThrows wm bm" by (rule wfSquare_no_resolveThrows)
  from processMoves_returns[OF w b t this] obtain g' where "processMoves g = Some g'" ..
  then show ?thesis using True by (simp add: finishRound_def)
next
  case False
  then show ?thesis by (auto simp: finishRound_def)
qed

lemma pendingSound_store:
  assumes "wfSquare (from_sq m)" and "wfSquare (to_sq m)" and "truthy (movedPiece g m)"
    and "pendingSound g (otherColor cn)"
    and "position g2 = position g"
    and "pendingMoves g2 = upd cn (Some m) (pendingMoves g)"
  shows "pendingSound g2 White \<and> pendingSound g2 Black"
proof (cases cn)
  case White
  then show ?thesis
    using assms
    by (auto simp: pendingSound_def sel_def upd_def otherColor_def movedPiece_def
             split: option.splits)
next
  case Black
  then show ?thesis
    using assms
    by (auto simp: pendingSound_def sel_def upd_def otherColor_def movedPiece_def
             split: option.splits)
qed

text \<open>
  Two facts behind the theorems on the terminal result: the checkmate test never gives a
  draw, whatever the board, and the checks of \<open>submitMove\<close> do not read \<open>gameResult\<close>.
\<close>

lemma checkmateResult_never_draw:
  "checkmateResult None newBoard chk cr ep \<noteq> Some ''draw''"
  by (simp add: checkmateResult_def truthy_def)

lemma validateMove_ignores_result:
  "validateMove (g\<lparr>gameResult := r\<rparr>) cn m = validateMove g cn m"
  by (simp add: validateMove_def repeatAllowed_def Let_def)

lemma repeatAllowed_ignores_result:
  "repeatAllowed (g\<lparr>gameResult := r\<rparr>) cn b p = repeatAllowed g cn b p"
  by (simp add: repeatAllowed_def)

lemma validateThrows_ignores_result:
  "validateThrows (g\<lparr>gameResult := r\<rparr>) cn m = validateThrows g cn m"
  unfolding validateThrows_def repeatAllowed_ignores_result by simp

text \<open>
  Two runs on squares off the board. A to-square whose rank is no row makes \<open>submitMove\<close>
  throw in \<open>isLegalMove\<close>. A to-square whose file is off the board passes the checks
  (the rook's move from h1 to a ninth file is stored), and the resolution of the round
  throws when it reads that square.
\<close>

lemma submitMove_throws_off_rank:
  "submitMove ''W'' (mv ''e2'' ''e9'') 1 startGame = None"
  by code_simp

lemma processMoves_throws_off_file:
  "(case submitMove ''W'' (mv ''h1'' ''i1'') 1 startGame of
      None \<Rightarrow> False
    | Some (g1, evs1) \<Rightarrow>
        white (pendingMoves g1) = Some (mv ''h1'' ''i1'')
        \<and> submitMove ''B'' (mv ''e7'' ''e5'') 2 g1 = None)"
  by code_simp

section \<open>The claims\<close>

text \<open>
  C1: a round is resolved only when both colours have a complete move, and a move that
  needs a promotion choice is complete only once the choice is attached. The handler
  does not keep to this when the promoting colour submits first: \<open>submitMove\<close> stores the
  pawn's move and returns to wait for the choice, but the other colour's submission then
  finds two pending moves and resolves the round. The theorem runs both submissions on
  \<open>pawnGame\<close>: white's pawn move from a7 to a8 is stored without a promotion, black's move
  from h7 to h6 resolves the round, and the pawn stands on a8 as a pawn.
\<close>

theorem promotion_wait_broken:
  "(case submitMove ''W'' (mv ''a7'' ''a8'') 1 pawnGame of
      None \<Rightarrow> False
    | Some (g1, evs1) \<Rightarrow>
        evs1 = [RoomEmit ''gameStarted'', SocketEmit ''promotionNeeded'' ''a8'']
        \<and> pendingMoves g1 = \<lparr>white = Some (mv ''a7'' ''a8''), black = None\<rparr>
        \<and> (case submitMove ''B'' (mv ''h7'' ''h6'') 2 g1 of
              None \<Rightarrow> False
            | Some (g2, evs2) \<Rightarrow>
                evs2 = [SocketEmit ''moveAccepted'' [], RoomEmit ''timerUpdate'',
                        RoomEmit ''boardState'', RoomEmit ''gameState'']
                \<and> pendingMoves g2 = both None
                \<and> length (moveHistory g2) = 1
                \<and> position g2 = [(''a8'', ''wPa''), (''e8'', ''bK''), (''h6'', ''bPh''),
                                  (''e1'', ''wK'')]))"
  by code_simp

text \<open>
  C2: when exactly one colour is checkmated the other wins, and when both are checkmated
  the round is a draw. The evaluator tests white's checkmate first and black's second, so
  the branch for a double checkmate is never reached. The theorem resolves the round of
  \<open>doubleMateGame\<close> (both rooks step onto the back rank of the other king): both kings
  stand on the board, \<open>isCheckmate\<close> holds for both colours, and the result is
  \<open>blackWins\<close>.
\<close>

theorem double_checkmate_black_wins:
  "legalFor doubleMateGame White (mv ''a7'' ''a8'')
   \<and> legalFor doubleMateGame Black (mv ''a2'' ''a1'')
   \<and> (case processMoves doubleMateGame of
         None \<Rightarrow> False
       | Some g' \<Rightarrow>
           doesKingExist (positionToBoard (position g')) CHR ''w''
           \<and> doesKingExist (positionToBoard (position g')) CHR ''b''
           \<and> isCheckmate (positionToBoard (position g')) CHR ''w''
                (castlingRights g') (enPassantTarget g')
           \<and> isCheckmate (positionToBoard (position g')) CHR ''b''
                (castlingRights g') (enPassantTarget g')
           \<and> gameResult g' = Some ''blackWins'')"
  by code_simp

text \<open>
  C3 (swerve rule): when both moves are individually legal on the pre-round position,
  their destinations differ and one side's destination is the from-square of the piece
  the other side moves, no capture happens: after the round each destination holds the
  piece that moved there. \<open>promotedPiece\<close> is the moving piece itself unless a promotion
  choice is attached to the move.
\<close>

theorem swerve_no_capture:
  assumes "white (pendingMoves g) = Some wm" and "black (pendingMoves g) = Some bm"
    and "wfPosition (position g)"
    and "legalFor g White wm" and "legalFor g Black bm"
    and "to_sq wm \<noteq> to_sq bm"
    and "to_sq wm = from_sq bm \<or> to_sq bm = from_sq wm"
  shows "\<exists>g'. processMoves g = Some g'
           \<and> positionToBoard (position g') (squareToCoords (to_sq wm))
               = promotedPiece CHR ''w'' wm (movedPiece g wm)
           \<and> positionToBoard (position g') (squareToCoords (to_sq bm))
               = promotedPiece CHR ''b'' bm (movedPiece g bm)"
proof -
  let ?b = "positionToBoard (position g)"
  have tw: "truthy (movedPiece g wm)" and tb: "truthy (movedPiece g bm)"
    using assms(4,5) by (simp_all add: legalFor_def)
  have ww: "wfSquare (to_sq wm)" and wb: "wfSquare (to_sq bm)"
    using assms(4,5) by (simp_all add: legalFor_def)
  have fw: "wfSquare (from_sq wm)" and fb: "wfSquare (from_sq bm)"
    using assms(4,5) by (simp_all add: legalFor_def)
  have nt: "\<not> resolveThrows wm bm"
    by (rule wfSquare_no_resolveThrows[OF fw ww fb wb])
  have ne: "squareToCoords (to_sq wm) \<noteq> squareToCoords (to_sq bm)"
    using wfSquare_coords_eq[OF ww wb] assms(6) by blast
  have dw: "?b (squareToCoords (to_sq wm)) = None
         \<or> pieceChar (?b (squareToCoords (to_sq wm))) 0 = Some CHR ''b''"
    using legal_dest_free[OF assms(3,4)] by (simp add: colorChar_def)
  have db: "?b (squareToCoords (to_sq bm)) = None
         \<or> pieceChar (?b (squareToCoords (to_sq bm))) 0 = Some CHR ''w''"
    using legal_dest_free[OF assms(3,5)] by (simp add: colorChar_def)
  obtain g' where g': "processMoves g = Some g'"
      and pos: "position g' = boardToPosition (resolveBoard ?b wm bm)"
    using processMoves_position[OF assms(1,2) tw tb nt] by blast
  have rw: "resolveBoard ?b wm bm (squareToCoords (to_sq wm))
              = promotedPiece CHR ''w'' wm (movedPiece g wm)"
    unfolding resolveBoard_def movedPiece_def by (rule placeStep_dest(1)[OF assms(6) ne dw db])
  have rb: "resolveBoard ?b wm bm (squareToCoords (to_sq bm))
              = promotedPiece CHR ''b'' bm (movedPiece g bm)"
    unfolding resolveBoard_def movedPiece_def by (rule placeStep_dest(2)[OF assms(6) ne dw db])
  have "positionToBoard (position g') (squareToCoords (to_sq wm))
          = promotedPiece CHR ''w'' wm (movedPiece g wm)"
    unfolding pos positionToBoard_boardToPosition rw
    using wfSquare_inRange[OF ww] promotedPiece_truthy[OF tw] by simp
  moreover have "positionToBoard (position g') (squareToCoords (to_sq bm))
          = promotedPiece CHR ''b'' bm (movedPiece g bm)"
    unfolding pos positionToBoard_boardToPosition rb
    using wfSquare_inRange[OF wb] promotedPiece_truthy[OF tb] by simp
  ultimately show ?thesis using g' by blast
qed

theorem swerve_no_capture_witness:
  "white (pendingMoves swerveGame) = Some (mv ''e5'' ''f6'')
   \<and> black (pendingMoves swerveGame) = Some (mv ''f6'' ''g8'')
   \<and> wfPosition (position swerveGame)
   \<and> legalFor swerveGame White (mv ''e5'' ''f6'')
   \<and> legalFor swerveGame Black (mv ''f6'' ''g8'')
   \<and> to_sq (mv ''e5'' ''f6'') \<noteq> to_sq (mv ''f6'' ''g8'')
   \<and> to_sq (mv ''e5'' ''f6'') = from_sq (mv ''f6'' ''g8'')
   \<and> (\<exists>g'. processMoves swerveGame = Some g'
           \<and> positionToBoard (position g') (squareToCoords ''f6'') = Some ''wPe''
           \<and> positionToBoard (position g') (squareToCoords ''g8'') = Some ''bN2'')"
proof -
  have h1: "white (pendingMoves swerveGame) = Some (mv ''e5'' ''f6'')" by code_simp
  have h2: "black (pendingMoves swerveGame) = Some (mv ''f6'' ''g8'')" by code_simp
  have h3: "wfPosition (position swerveGame)" by code_simp
  have h4: "legalFor swerveGame White (mv ''e5'' ''f6'')" by code_simp
  have h5: "legalFor swerveGame Black (mv ''f6'' ''g8'')" by code_simp
  have h6: "to_sq (mv ''e5'' ''f6'') \<noteq> to_sq (mv ''f6'' ''g8'')" by code_simp
  have h7: "to_sq (mv ''e5'' ''f6'') = from_sq (mv ''f6'' ''g8'')" by code_simp
  have p1: "promotedPiece CHR ''w'' (mv ''e5'' ''f6'') (movedPiece swerveGame (mv ''e5'' ''f6''))
              = Some ''wPe''" by code_simp
  have p2: "promotedPiece CHR ''b'' (mv ''f6'' ''g8'') (movedPiece swerveGame (mv ''f6'' ''g8''))
              = Some ''bN2''" by code_simp
  have t1: "to_sq (mv ''e5'' ''f6'') = ''f6''" and t2: "to_sq (mv ''f6'' ''g8'') = ''g8''"
    by (simp_all add: mv_def)
  from swerve_no_capture[OF h1 h2 h3 h4 h5 h6 disjI1[OF h7]]
  show ?thesis using h1 h2 h3 h4 h5 h6 h7 unfolding p1 p2 t1 t2 by blast
qed

text \<open>
  C4: when both moves have the same destination, neither moving piece is on the board
  afterwards. A castling king is the exception the resolution misses: \<open>handleCastling\<close>
  has already written king and rook when the collision is found, and the collision
  branch places nothing and removes nothing. The theorem resolves the round of
  \<open>castleGame\<close>, where white castles from e1 to g1 and a black knight moves from h3 to g1:
  the white king stands on g1 afterwards, and the result is \<open>blackWins\<close>.
\<close>

theorem castling_collision_keeps_king:
  "legalFor castleGame White (mv ''e1'' ''g1'')
   \<and> legalFor castleGame Black (mv ''h3'' ''g1'')
   \<and> to_sq (mv ''e1'' ''g1'') = to_sq (mv ''h3'' ''g1'')
   \<and> (case processMoves castleGame of
         None \<Rightarrow> False
       | Some g' \<Rightarrow>
           position g' = [(''e8'', ''bK''), (''f1'', ''wR2''), (''g1'', ''wK'')]
           \<and> gameResult g' = Some ''blackWins'')"
  by code_simp

text \<open>
  C5: when both colours advance a pawn two ranks in the same round, both en-passant
  targets are recorded, each for the other colour to use in the following round. The
  game has one \<open>enPassantTarget\<close>, and \<open>processMoves\<close> writes white's square into it and then
  black's over it. The theorem resolves the round of \<open>passantGame\<close> (white e2 to e4, black
  h7 to h5, a black pawn on d4): both moves are legal double advances, the stored target
  is h6 alone, and in the following round black's capture from d4 to e3 is refused. In
  \<open>passantSingleGame\<close>, where black's pawn advances one rank only, the target is e3 and
  the same capture is accepted.
\<close>

theorem en_passant_target_overwritten:
  "legalFor passantGame White (mv ''e2'' ''e4'')
   \<and> legalFor passantGame Black (mv ''h7'' ''h5'')
   \<and> doubleAdvance (positionToBoard (position passantGame)) (mv ''e2'' ''e4'')
   \<and> doubleAdvance (positionToBoard (position passantGame)) (mv ''h7'' ''h5'')
   \<and> (case processMoves passantGame of
         None \<Rightarrow> False
       | Some g' \<Rightarrow>
           enPassantTarget g' = Some ''h6''
           \<and> positionToBoard (position g') (squareToCoords ''e4'') = Some ''wPe''
           \<and> positionToBoard (position g') (squareToCoords ''d4'') = Some ''bPd''
           \<and> \<not> isLegalMove (positionToBoard (position g')) ''d4'' ''e3'' ''bP''
                  (castlingRights g') (enPassantTarget g'))
   \<and> (case processMoves passantSingleGame of
         None \<Rightarrow> False
       | Some g' \<Rightarrow>
           enPassantTarget g' = Some ''e3''
           \<and> positionToBoard (position g') (squareToCoords ''e4'') = Some ''wPe''
           \<and> positionToBoard (position g') (squareToCoords ''d4'') = Some ''bPd''
           \<and> isLegalMove (positionToBoard (position g')) ''d4'' ''e3'' ''bP''
                (castlingRights g') (enPassantTarget g'))"
  by code_simp

text \<open>
  C6: a move of the last-moved piece is permitted when no other piece of the colour has
  a legal move, where a move that leaves the mover's own king in check does not count.
  The search of \<open>submitMove\<close> asks \<open>isLegalMove\<close> alone and counts such moves. The theorem
  is about \<open>pinGame\<close>: the white king moved last, white is not in check, its only other
  piece is a bishop pinned on the e-file, no move of the bishop leaves the king out of
  check (\<open>safeMoveTo\<close> finds none), and the king's move from e1 to d1 is rejected as a
  repeat.
\<close>

theorem repeat_search_keeps_unsafe_moves:
  "sel White (lastMovedPieces pinGame) = Some ''wK''
   \<and> \<not> sel White (inCheck pinGame)
   \<and> legalFor pinGame White (mv ''e1'' ''d1'')
   \<and> \<not> safeMoveTo (positionToBoard (position pinGame)) CHR ''w'' (castlingRights pinGame)
          (enPassantTarget pinGame) True (squareToCoords ''e2'') allCoords
   \<and> validateMove pinGame White (mv ''e1'' ''d1'')
       = Some ''Cannot move the same piece twice in a row''"
  by code_simp

text \<open>
  C7: castling is legal only if the king neither passes through nor lands on an attacked
  square. \<open>isLegalMove\<close> probes the square the king passes (the f-file or the d-file) and
  not the square it lands on. The theorem is about \<open>castleAttackedGame\<close>: a black rook on
  g8 attacks g1 along the open file, white is not in check, and both \<open>isLegalMove\<close> and
  the checks of \<open>submitMove\<close> accept the castling move from e1 to g1.
\<close>

theorem castling_onto_attacked_square:
  "\<not> isInCheck (positionToBoard (position castleAttackedGame)) CHR ''w''
   \<and> isSquareUnderAttack (positionToBoard (position castleAttackedGame)) ''g1'' CHR ''b''
   \<and> isLegalMove (positionToBoard (position castleAttackedGame)) ''e1'' ''g1'' ''wK''
        (castlingRights castleAttackedGame) (enPassantTarget castleAttackedGame)
   \<and> validateMove castleAttackedGame White (mv ''e1'' ''g1'') = None"
  by code_simp

text \<open>
  C8: a terminal result is permanent and no further round is resolved. No handler
  reads \<open>gameResult\<close> before it accepts a move, and \<open>processMoves\<close> stores whatever the new
  round gives. The theorem starts from \<open>stalemateGame\<close>, a game drawn by stalemate of the
  black king: both colours submit a king move, the round is resolved, and the stored
  result is \<open>null\<close> again.
\<close>

theorem result_overwritten_after_draw:
  "gameResult stalemateGame = Some ''draw''
   \<and> isStalemate (positionToBoard (position stalemateGame)) CHR ''b''
        (castlingRights stalemateGame) (enPassantTarget stalemateGame)
   \<and> (case submitMove ''B'' (mv ''a8'' ''a7'') 1 stalemateGame of
         None \<Rightarrow> False
       | Some (g1, evs1) \<Rightarrow>
           (case submitMove ''W'' (mv ''c1'' ''c2'') 2 g1 of
              None \<Rightarrow> False
            | Some (g2, evs2) \<Rightarrow>
                length (moveHistory g2) = 1
                \<and> position g2 = [(''a7'', ''bK''), (''b6'', ''wQ''), (''c2'', ''wK'')]
                \<and> gameResult g2 = None))"
  by code_simp

text \<open>
  C9, as amended (for a game whose position has squares of the board as keys): a
  submission that names squares of the board and fails a check of
  \<open>submitMove\<close> (no piece on the from-square, a piece of the other colour, the repeat rule,
  an illegal move, a move that leaves the checked king in check) gets its error on the
  sender's socket and changes no field of the game but \<open>gameStarted\<close>, which the handler
  sets before it validates (announcing it to the room the first time). A promotion
  choice that fails a check of \<open>promotePawn\<close>, the pending move naming squares of the board,
  gets its error on the sender's socket and changes nothing.
\<close>

theorem rejection_leaves_state:
  assumes "playerColor g socketId = Some cn" and "positionOnBoard (position g)"
  shows "(wfSquare (from_sq m) \<and> wfSquare (to_sq m) \<and> validateMove g cn m = Some err \<longrightarrow>
            submitMove socketId m now g
              = Some (g\<lparr>gameStarted := True\<rparr>, startedEvents g @ [SocketEmit ''error'' err]))
         \<and> (pendingOnBoard g cn \<and> promotionError g cn sq pieceType = Some err \<longrightarrow>
            promotePawn socketId sq pieceType now g = Some (g, [SocketEmit ''error'' err]))"
proof (intro conjI impI)
  assume a: "wfSquare (from_sq m) \<and> wfSquare (to_sq m) \<and> validateMove g cn m = Some err"
  then have "rankOnBoard (squareToCoords (to_sq m))"
    using wfSquare_onBoard by blast
  then have nt: "\<not> validateThrows (g\<lparr>gameStarted := True\<rparr>) cn m"
    by (rule validateThrows_onBoard)
  show "submitMove socketId m now g
          = Some (g\<lparr>gameStarted := True\<rparr>, startedEvents g @ [SocketEmit ''error'' err])"
    using assms(1) a nt
    by (simp add: submitMove_def Let_def started_cases validateMove_started startedEvents_def)
next
  assume a: "pendingOnBoard g cn \<and> promotionError g cn sq pieceType = Some err"
  have nt: "\<not> promotePawnThrows g cn sq pieceType"
  proof
    assume "promotePawnThrows g cn sq pieceType"
    then obtain pm where pm: "sel cn (pendingMoves g) = Some pm"
        and r: "\<not> rankOnBoard (squareToCoords (from_sq pm))"
      by (auto simp: promotePawnThrows_def split: if_splits option.splits)
    from a pm have "wfSquare (from_sq pm)" by (simp add: pendingOnBoard_def)
    with r show False using wfSquare_onBoard by blast
  qed
  show "promotePawn socketId sq pieceType now g = Some (g, [SocketEmit ''error'' err])"
    using assms(1) a nt by (simp add: promotePawn_def)
qed

theorem rejection_leaves_state_witness:
  "playerColor startGame ''W'' = Some White
   \<and> positionOnBoard (position startGame)
   \<and> wfSquare (from_sq (mv ''e2'' ''e5'')) \<and> wfSquare (to_sq (mv ''e2'' ''e5''))
   \<and> validateMove startGame White (mv ''e2'' ''e5'') = Some ''Illegal move''
   \<and> submitMove ''W'' (mv ''e2'' ''e5'') 1 startGame
       = Some (startGame\<lparr>gameStarted := True\<rparr>,
               startedEvents startGame @ [SocketEmit ''error'' ''Illegal move''])
   \<and> playerColor promotionGame ''W'' = Some White
   \<and> positionOnBoard (position promotionGame)
   \<and> pendingOnBoard promotionGame White
   \<and> promotionError promotionGame White ''b8'' ''Q'' = Some ''Square mismatch for promotion''
   \<and> promotePawn ''W'' ''b8'' ''Q'' 1 promotionGame
       = Some (promotionGame, [SocketEmit ''error'' ''Square mismatch for promotion''])"
proof -
  have h1: "playerColor startGame ''W'' = Some White" by code_simp
  have b1: "positionOnBoard (position startGame)" by code_simp
  have b3: "positionOnBoard (position promotionGame)" by code_simp
  have w1: "wfSquare (from_sq (mv ''e2'' ''e5''))" by code_simp
  have w2: "wfSquare (to_sq (mv ''e2'' ''e5''))" by code_simp
  have h2: "validateMove startGame White (mv ''e2'' ''e5'') = Some ''Illegal move''" by code_simp
  have h3: "playerColor promotionGame ''W'' = Some White" by code_simp
  have w3: "pendingOnBoard promotionGame White" by code_simp
  have h4: "promotionError promotionGame White ''b8'' ''Q'' = Some ''Square mismatch for promotion''"
    by code_simp
  from rejection_leaves_state[OF h1 b1, where m = "mv ''e2'' ''e5''" and err = "''Illegal move''"
         and now = 1]
    rejection_leaves_state[OF h3 b3, where sq = "''b8''" and pieceType = "''Q''"
         and err = "''Square mismatch for promotion''" and now = 1]
  show ?thesis using h1 h2 h3 h4 w1 w2 w3 b1 b3 by simp
qed

theorem rejection_mutates_counterexample:
  "\<not> gameStarted startGame
   \<and> positionOnBoard (position startGame)
   \<and> wfSquare (from_sq (mv ''e4'' ''e5'')) \<and> wfSquare (to_sq (mv ''e4'' ''e5''))
   \<and> submitMove ''W'' (mv ''e4'' ''e5'') 1 startGame
       = Some (startGame\<lparr>gameStarted := True\<rparr>,
               [RoomEmit ''gameStarted'', SocketEmit ''error'' ''No piece at starting position''])
   \<and> startGame\<lparr>gameStarted := True\<rparr> \<noteq> startGame"
proof -
  have a: "\<not> gameStarted startGame" by code_simp
  have b: "positionOnBoard (position startGame)" by code_simp
  have w1: "wfSquare (from_sq (mv ''e4'' ''e5''))" by code_simp
  have w2: "wfSquare (to_sq (mv ''e4'' ''e5''))" by code_simp
  have p: "playerColor startGame ''W'' = Some White" by code_simp
  have v: "validateMove startGame White (mv ''e4'' ''e5'') = Some ''No piece at starting position''"
    by code_simp
  have t: "\<not> validateThrows startGame White (mv ''e4'' ''e5'')" by code_simp
  have s: "submitMove ''W'' (mv ''e4'' ''e5'') 1 startGame
       = Some (startGame\<lparr>gameStarted := True\<rparr>,
               [RoomEmit ''gameStarted'', SocketEmit ''error'' ''No piece at starting position''])"
    using a p v t
    by (simp add: submitMove_def Let_def started_cases validateMove_started
          validateThrows_started)
  have n: "startGame\<lparr>gameStarted := True\<rparr> \<noteq> startGame"
  proof
    assume "startGame\<lparr>gameStarted := True\<rparr> = startGame"
    then have "gameStarted (startGame\<lparr>gameStarted := True\<rparr>) = gameStarted startGame" by simp
    with a show False by simp
  qed
  from a b w1 w2 s n show ?thesis by blast
qed

text \<open>
  C10: while the check flag of the submitting colour is not set, \<open>submitMove\<close> accepts
  every individually legal move of a piece other than the last-moved one (the other
  colour's pending move, if there is one, being a move between squares of the board from
  an occupied square, so that the round can be resolved): it answers no
  error and acknowledges the move (or asks for the promotion choice), whether or not the
  move leaves the colour's own king in check. The position's keys are squares of the
  board. The witness is a pinned bishop that moves off the file of its king while
  black's move is already pending.
\<close>

theorem submitMove_no_self_check_test:
  assumes "playerColor g socketId = Some cn"
    and "\<not> sel cn (inCheck g)"
    and "legalFor g cn m"
    and "movedPiece g m \<noteq> sel cn (lastMovedPieces g)"
    and "pendingSound g (otherColor cn)"
    and "positionOnBoard (position g)"
  shows "\<exists>g' evs. submitMove socketId m now g = Some (g', evs)
           \<and> (\<forall>msg. SocketEmit ''error'' msg \<notin> set evs)
           \<and> (SocketEmit ''moveAccepted'' [] \<in> set evs
              \<or> SocketEmit ''promotionNeeded'' (to_sq m) \<in> set evs)"
proof -
  let ?g1 = "g\<lparr>gameStarted := True\<rparr>"
  have v: "validateMove ?g1 cn m = None"
    unfolding validateMove_started by (rule validateMove_accepts[OF assms(2,3,4)])
  have tm: "truthy (movedPiece g m)" using assms(3) by (simp add: legalFor_def)
  have wf: "wfSquare (from_sq m)" and wt: "wfSquare (to_sq m)"
    using assms(3) by (simp_all add: legalFor_def)
  have nt: "\<not> validateThrows ?g1 cn m"
    using wfSquare_onBoard[OF wt] by (simp add: validateThrows_onBoard)
  show ?thesis
  proof (cases "isPawnPromotion ?g1 cn m")
    case True
    then show ?thesis
      using assms(1) v nt by (auto simp: submitMove_def Let_def started_cases)
  next
    case False
    let ?g2 = "checkTimerStatus (?g1\<lparr>pendingMoves := upd cn (Some m) (pendingMoves ?g1)\<rparr>)"
    let ?evs = "startedEvents g @ [SocketEmit ''moveAccepted'' [], RoomEmit ''timerUpdate'']"
    have s: "submitMove socketId m now g = finishRound now ?g2 ?evs"
      using assms(1) v nt False
      by (simp add: submitMove_def Let_def started_cases startedEvents_def)
    have "pendingSound ?g2 White \<and> pendingSound ?g2 Black"
      by (rule pendingSound_store[OF wf wt tm assms(5)]) (simp_all add: checkTimerStatus_frame)
    then obtain g' evs' where r: "finishRound now ?g2 ?evs = Some (g', evs')"
      using finishRound_returns[of ?g2 now ?evs] by auto
    from finishRound_events[OF r] have "evs' = ?evs \<or> evs' = ?evs @ [RoomEmit ''boardState'', RoomEmit ''gameState'']" .
    then have "(\<forall>msg. SocketEmit ''error'' msg \<notin> set evs') \<and> SocketEmit ''moveAccepted'' [] \<in> set evs'"
      by (auto simp: startedEvents_def split: if_splits)
    then show ?thesis using s r by auto
  qed
qed

theorem submitMove_no_self_check_test_witness:
  "playerColor pinPendingGame ''W'' = Some White
   \<and> \<not> sel White (inCheck pinPendingGame)
   \<and> legalFor pinPendingGame White (mv ''e2'' ''d3'')
   \<and> movedPiece pinPendingGame (mv ''e2'' ''d3'') \<noteq> sel White (lastMovedPieces pinPendingGame)
   \<and> sel Black (pendingMoves pinPendingGame) = Some (mv ''h8'' ''g8'')
   \<and> pendingSound pinPendingGame (otherColor White)
   \<and> positionOnBoard (position pinPendingGame)
   \<and> isInCheck ((positionToBoard (position pinPendingGame))
        (squareToCoords ''e2'' := None, squareToCoords ''d3'' := Some ''wB1'')) CHR ''w''
   \<and> (\<exists>g' evs. submitMove ''W'' (mv ''e2'' ''d3'') 1 pinPendingGame = Some (g', evs)
           \<and> (\<forall>msg. SocketEmit ''error'' msg \<notin> set evs)
           \<and> (SocketEmit ''moveAccepted'' [] \<in> set evs
              \<or> SocketEmit ''promotionNeeded'' (to_sq (mv ''e2'' ''d3'')) \<in> set evs))"
proof -
  have h1: "playerColor pinPendingGame ''W'' = Some White" by code_simp
  have h2: "\<not> sel White (inCheck pinPendingGame)" by code_simp
  have h3: "legalFor pinPendingGame White (mv ''e2'' ''d3'')" by code_simp
  have h4: "movedPiece pinPendingGame (mv ''e2'' ''d3'')
              \<noteq> sel White (lastMovedPieces pinPendingGame)"
    by code_simp
  have h5: "pendingSound pinPendingGame (otherColor White)" by code_simp
  have h6: "isInCheck ((positionToBoard (position pinPendingGame))
        (squareToCoords ''e2'' := None, squareToCoords ''d3'' := Some ''wB1'')) CHR ''w''"
    by code_simp
  have h7: "positionOnBoard (position pinPendingGame)" by code_simp
  have h8: "sel Black (pendingMoves pinPendingGame) = Some (mv ''h8'' ''g8'')" by code_simp
  from submitMove_no_self_check_test[OF h1 h2 h3 h4 h5 h7, of 1]
  show ?thesis using h1 h2 h3 h4 h5 h6 h7 h8 by blast
qed

end
